theory Spec2Isabelle
  imports Complex_Main "HOL-Library.AList"
begin

section \<open>JavaScript values used by the chat application\<close>

text \<open>
  The analytic core of the application (\<^verbatim>\<open>src/services/csvTools.js\<close>,
  the routing block of \<^verbatim>\<open>src/components/Chat.js\<close> and the retry wrapper of
  \<^verbatim>\<open>server/index.js\<close>) is embedded function by function.

  Strings are lists of code units below 256 (the Latin-1 part of a JavaScript string).
  Numbers are the IEEE special values together with exact reals: \<open>NaN\<close>, the two
  infinities and \<open>Fin r\<close>. Arithmetic on finite values is exact, so rounding error,
  overflow to an infinity and the sign of zero are not part of the model.
\<close>

datatype jsnum = NaN | NegInf | Fin real | PosInf

datatype jsval = JUndefined | JNull | JBool bool | JNum jsnum | JStr string

subsection \<open>Characters and strings\<close>

definition is_ws :: "char \<Rightarrow> bool" where
  \<comment> \<open>white space and line terminators below 256: what \<^verbatim>\<open>trim\<close> strips and \<^verbatim>\<open>\s\<close> matches\<close>
  "is_ws c = (of_char c \<in> {9, 10, 11, 12, 13, 32, 160 :: nat})"

definition is_line_terminator :: "char \<Rightarrow> bool" where
  "is_line_terminator c = (of_char c \<in> {10, 13 :: nat})"

definition is_digit :: "char \<Rightarrow> bool" where
  "is_digit c = (48 \<le> (of_char c :: nat) \<and> (of_char c :: nat) \<le> 57)"

definition is_word_char :: "char \<Rightarrow> bool" where
  \<comment> \<open>\<^verbatim>\<open>\w\<close>: letters, digits and the underscore\<close>
  "is_word_char c = (let n = (of_char c :: nat) in
     (48 \<le> n \<and> n \<le> 57) \<or> (65 \<le> n \<and> n \<le> 90) \<or> n = 95 \<or> (97 \<le> n \<and> n \<le> 122))"

definition digit_val :: "char \<Rightarrow> int" where
  "digit_val c = of_char c - 48"

definition digits_val :: "string \<Rightarrow> int" where
  "digits_val ds = foldl (\<lambda>a c. 10 * a + digit_val c) 0 ds"

definition upper_chars :: "char list" where
  "upper_chars = ''ABCDEFGHIJKLMNOPQRSTUVWXYZ'' @
     [CHR 0xC0, CHR 0xC1, CHR 0xC2, CHR 0xC3, CHR 0xC4, CHR 0xC5, CHR 0xC6, CHR 0xC7,
      CHR 0xC8, CHR 0xC9, CHR 0xCA, CHR 0xCB, CHR 0xCC, CHR 0xCD, CHR 0xCE, CHR 0xCF,
      CHR 0xD0, CHR 0xD1, CHR 0xD2, CHR 0xD3, CHR 0xD4, CHR 0xD5, CHR 0xD6,
      CHR 0xD8, CHR 0xD9, CHR 0xDA, CHR 0xDB, CHR 0xDC, CHR 0xDD, CHR 0xDE]"

definition lower_chars :: "char list" where
  "lower_chars = ''abcdefghijklmnopqrstuvwxyz'' @
     [CHR 0xE0, CHR 0xE1, CHR 0xE2, CHR 0xE3, CHR 0xE4, CHR 0xE5, CHR 0xE6, CHR 0xE7,
      CHR 0xE8, CHR 0xE9, CHR 0xEA, CHR 0xEB, CHR 0xEC, CHR 0xED, CHR 0xEE, CHR 0xEF,
      CHR 0xF0, CHR 0xF1, CHR 0xF2, CHR 0xF3, CHR 0xF4, CHR 0xF5, CHR 0xF6,
      CHR 0xF8, CHR 0xF9, CHR 0xFA, CHR 0xFB, CHR 0xFC, CHR 0xFD, CHR 0xFE]"

definition to_lower :: "char \<Rightarrow> char" where
  "to_lower c = (case map_of (zip upper_chars lower_chars) c of Some l \<Rightarrow> l | None \<Rightarrow> c)"

definition toLowerCase :: "string \<Rightarrow> string" where
  "toLowerCase s = map to_lower s"

definition trim :: "string \<Rightarrow> string" where
  "trim s = rev (dropWhile is_ws (rev (dropWhile is_ws s)))"

fun starts_with :: "string \<Rightarrow> string \<Rightarrow> bool" where
  "starts_with [] s = True"
| "starts_with (p # ps) [] = False"
| "starts_with (p # ps) (c # cs) = (p = c \<and> starts_with ps cs)"

fun includes_str :: "string \<Rightarrow> string \<Rightarrow> bool" where
  \<comment> \<open>\<^verbatim>\<open>s.includes(p)\<close>\<close>
  "includes_str p [] = (p = [])"
| "includes_str p (c # cs) = (starts_with p (c # cs) \<or> includes_str p cs)"


fun join_with :: "string \<Rightarrow> string list \<Rightarrow> string" where
  \<comment> \<open>\<^verbatim>\<open>xs.join(sep)\<close>\<close>
  "join_with sep [] = []"
| "join_with sep [x] = x"
| "join_with sep (x # y # ys) = x @ sep @ join_with sep (y # ys)"

subsection \<open>Numbers\<close>

definition isNaN :: "jsnum \<Rightarrow> bool" where
  "isNaN n = (n = NaN)"

fun js_neg :: "jsnum \<Rightarrow> jsnum" where
  "js_neg NaN = NaN"
| "js_neg NegInf = PosInf"
| "js_neg PosInf = NegInf"
| "js_neg (Fin a) = Fin (- a)"

fun js_add :: "jsnum \<Rightarrow> jsnum \<Rightarrow> jsnum" where
  "js_add NaN b = NaN"
| "js_add a NaN = NaN"
| "js_add (Fin a) (Fin b) = Fin (a + b)"
| "js_add PosInf NegInf = NaN"
| "js_add NegInf PosInf = NaN"
| "js_add PosInf b = PosInf"
| "js_add NegInf b = NegInf"
| "js_add (Fin a) b = b"

definition js_sub :: "jsnum \<Rightarrow> jsnum \<Rightarrow> jsnum" where
  "js_sub a b = js_add a (js_neg b)"

fun js_sq :: "jsnum \<Rightarrow> jsnum" where
  \<comment> \<open>\<^verbatim>\<open>x ** 2\<close>\<close>
  "js_sq NaN = NaN"
| "js_sq (Fin a) = Fin (a * a)"
| "js_sq i = PosInf"

fun js_sqrt :: "jsnum \<Rightarrow> jsnum" where
  "js_sqrt (Fin a) = (if a < 0 then NaN else Fin (sqrt a))"
| "js_sqrt PosInf = PosInf"
| "js_sqrt n = NaN"

fun js_sign :: "jsnum \<Rightarrow> int" where
  \<comment> \<open>the sign of a number, \<open>0\<close> for zero and for NaN\<close>
  "js_sign NaN = 0"
| "js_sign NegInf = - 1"
| "js_sign PosInf = 1"
| "js_sign (Fin a) = (if a < 0 then - 1 else if a = 0 then 0 else 1)"

fun js_div :: "jsnum \<Rightarrow> jsnum \<Rightarrow> jsnum" where
  \<comment> \<open>a zero divisor is taken as \<open>+0\<close>\<close>
  "js_div NaN b = NaN"
| "js_div a NaN = NaN"
| "js_div (Fin a) (Fin b) =
     (if b = 0 then (if a = 0 then NaN else if a < 0 then NegInf else PosInf) else Fin (a / b))"
| "js_div (Fin a) b = Fin 0"
| "js_div a (Fin b) = (if (js_sign a < 0) = (b < 0) then PosInf else NegInf)"
| "js_div a b = NaN"

fun js_less :: "jsnum \<Rightarrow> jsnum \<Rightarrow> bool" where
  \<comment> \<open>\<^verbatim>\<open>a < b\<close>: false as soon as one side is NaN\<close>
  "js_less NaN b = False"
| "js_less a NaN = False"
| "js_less (Fin a) (Fin b) = (a < b)"
| "js_less PosInf b = False"
| "js_less a PosInf = True"
| "js_less a NegInf = False"
| "js_less NegInf b = True"

definition js_min2 :: "jsnum \<Rightarrow> jsnum \<Rightarrow> jsnum" where
  "js_min2 a b = (if isNaN a \<or> isNaN b then NaN else if js_less b a then b else a)"

definition js_max2 :: "jsnum \<Rightarrow> jsnum \<Rightarrow> jsnum" where
  "js_max2 a b = (if isNaN a \<or> isNaN b then NaN else if js_less a b then b else a)"

definition Math_min :: "jsnum list \<Rightarrow> jsnum" where
  \<comment> \<open>\<^verbatim>\<open>Math.min(...xs)\<close>\<close>
  "Math_min xs = foldl js_min2 PosInf xs"

definition Math_max :: "jsnum list \<Rightarrow> jsnum" where
  "Math_max xs = foldl js_max2 NegInf xs"

definition round_half_up :: "nat \<Rightarrow> real \<Rightarrow> real" where
  \<comment> \<open>the decimal with \<open>d\<close> fraction digits nearest to \<open>x\<close>, a tie going away from zero\<close>
  "round_half_up d x = sgn x * of_int \<lfloor>\<bar>x\<bar> * 10 ^ d + 1 / 2\<rfloor> / 10 ^ d"

definition toFixed_real :: "nat \<Rightarrow> real \<Rightarrow> real" where
  \<comment> \<open>\<^verbatim>\<open>+x.toFixed(d)\<close> on a finite number: from \<open>10^21\<close> on \<^verbatim>\<open>toFixed\<close> prints
     the number itself\<close>
  "toFixed_real d x = (if \<bar>x\<bar> \<ge> 10 ^ 21 then x else round_half_up d x)"

fun toFixed :: "nat \<Rightarrow> jsnum \<Rightarrow> jsnum" where
  \<comment> \<open>\<^verbatim>\<open>+n.toFixed(d)\<close>: NaN and the infinities print and read back as themselves\<close>
  "toFixed d (Fin x) = Fin (toFixed_real d x)"
| "toFixed d n = n"

definition exponent_of :: "string \<Rightarrow> int" where
  \<comment> \<open>the value of an exponent part at the head of the string, \<open>0\<close> when there is none\<close>
  "exponent_of s = (case s of [] \<Rightarrow> 0 | c # r \<Rightarrow>
     if c = CHR ''e'' \<or> c = CHR ''E'' then
       (case r of [] \<Rightarrow> 0 | g # r' \<Rightarrow>
          if g = CHR ''-'' then
            (if takeWhile is_digit r' = [] then 0 else - digits_val (takeWhile is_digit r'))
          else if g = CHR ''+'' then digits_val (takeWhile is_digit r')
          else digits_val (takeWhile is_digit r))
     else 0)"

definition scale10 :: "real \<Rightarrow> int \<Rightarrow> real" where
  "scale10 m e = (if e \<ge> 0 then m * 10 ^ nat e else m / 10 ^ nat (- e))"

definition parse_unsigned :: "string \<Rightarrow> jsnum" where
  \<comment> \<open>the longest prefix that is an unsigned decimal literal\<close>
  "parse_unsigned s =
     (if starts_with ''Infinity'' s then PosInf
      else
        let ip = takeWhile is_digit s;
            r1 = dropWhile is_digit s;
            dot = (case r1 of [] \<Rightarrow> False | c # r \<Rightarrow> c = CHR ''.'');
            fp = (if dot then takeWhile is_digit (tl r1) else []);
            r2 = (if dot then dropWhile is_digit (tl r1) else r1)
        in if ip = [] \<and> fp = [] then NaN
           else Fin (scale10 (of_int (digits_val ip) + of_int (digits_val fp) / 10 ^ length fp)
                       (exponent_of r2)))"

definition parseFloat_str :: "string \<Rightarrow> jsnum" where
  "parseFloat_str s = (case dropWhile is_ws s of
       [] \<Rightarrow> NaN
     | c # r \<Rightarrow>
         if c = CHR ''-'' then js_neg (parse_unsigned r)
         else if c = CHR ''+'' then parse_unsigned r
         else parse_unsigned (c # r))"

fun parseFloat :: "jsval \<Rightarrow> jsnum" where
  \<comment> \<open>\<^verbatim>\<open>parseFloat(v)\<close> reads \<^verbatim>\<open>String(v)\<close>; a number reads back as itself\<close>
  "parseFloat (JStr s) = parseFloat_str s"
| "parseFloat (JNum n) = n"
| "parseFloat v = NaN"

subsection \<open>Objects\<close>

text \<open>
  An object is the list of its own properties in creation order. JavaScript enumerates
  (\<^verbatim>\<open>Object.keys\<close>, \<^verbatim>\<open>Object.entries\<close>, spread) the array-index keys first, in
  ascending numeric order, and then the other string keys in creation order.
\<close>

type_synonym 'v obj = "(string \<times> 'v) list"

definition is_array_index :: "string \<Rightarrow> bool" where
  \<comment> \<open>a canonical numeric string of an integer below \<open>2^32 - 1\<close>\<close>
  "is_array_index k = (k \<noteq> [] \<and> list_all is_digit k \<and> (k = ''0'' \<or> hd k \<noteq> CHR ''0'')
       \<and> digits_val k \<le> 4294967294)"

definition own_entries :: "'v obj \<Rightarrow> (string \<times> 'v) list" where
  "own_entries ob =
     sort_key (\<lambda>kv. digits_val (fst kv)) (filter (\<lambda>kv. is_array_index (fst kv)) ob)
     @ filter (\<lambda>kv. \<not> is_array_index (fst kv)) ob"

definition own_keys :: "'v obj \<Rightarrow> string list" where
  "own_keys ob = map fst (own_entries ob)"

definition obj_set :: "'v obj \<Rightarrow> string \<Rightarrow> 'v \<Rightarrow> 'v obj" where
  \<comment> \<open>\<^verbatim>\<open>ob[k] = v\<close>: an existing property keeps its place, a new one goes last\<close>
  "obj_set ob k v = AList.update k v ob"

definition obj_get :: "jsval obj \<Rightarrow> string \<Rightarrow> jsval" where
  \<comment> \<open>\<^verbatim>\<open>ob[k]\<close>: a missing property reads as \<^verbatim>\<open>undefined\<close>\<close>
  "obj_get ob k = (case map_of ob k of None \<Rightarrow> JUndefined | Some v \<Rightarrow> v)"

type_synonym row = "jsval obj"

subsection \<open>Regular expressions\<close>

text \<open>
  The patterns of the source are case-insensitive and only tested, so a pattern is
  its language: \<open>rx_step\<close> lists the states reachable by matching a pattern from a state,
  a state being the character before the position and the rest of the string.
\<close>

datatype rx =
    Lit string
  | Dot
  | Sp
  | Dg
  | Bos
  | Eos
  | Wb
  | Cat rx rx
  | Or rx rx
  | Opt rx
  | Star rx
  | Plus rx

type_synonym rx_state = "char option \<times> string"

fun lit_step :: "string \<Rightarrow> rx_state \<Rightarrow> rx_state list" where
  "lit_step [] st = [st]"
| "lit_step (p # ps) (prev, []) = []"
| "lit_step (p # ps) (prev, c # cs) =
     (if to_lower p = to_lower c then lit_step ps (Some c, cs) else [])"

fun class_step :: "(char \<Rightarrow> bool) \<Rightarrow> rx_state \<Rightarrow> rx_state list" where
  "class_step P (prev, []) = []"
| "class_step P (prev, c # cs) = (if P c then [(Some c, cs)] else [])"

definition at_word_boundary :: "rx_state \<Rightarrow> bool" where
  "at_word_boundary st =
     ((case fst st of None \<Rightarrow> False | Some c \<Rightarrow> is_word_char c)
      \<noteq> (case snd st of [] \<Rightarrow> False | c # cs \<Rightarrow> is_word_char c))"

fun rx_iter :: "nat \<Rightarrow> (rx_state \<Rightarrow> rx_state list) \<Rightarrow> rx_state \<Rightarrow> rx_state list" where
  \<comment> \<open>zero or more rounds of \<open>f\<close>, each consuming at least one character\<close>
  "rx_iter 0 f st = [st]"
| "rx_iter (Suc n) f st =
     st # concat (map (rx_iter n f) (filter (\<lambda>st'. length (snd st') < length (snd st)) (f st)))"

primrec rx_step :: "rx \<Rightarrow> rx_state \<Rightarrow> rx_state list" where
  "rx_step (Lit s) = lit_step s"
| "rx_step Dot = class_step (\<lambda>c. \<not> is_line_terminator c)"
| "rx_step Sp = class_step is_ws"
| "rx_step Dg = class_step is_digit"
| "rx_step Bos = (\<lambda>st. if fst st = None then [st] else [])"
| "rx_step Eos = (\<lambda>st. if snd st = [] then [st] else [])"
| "rx_step Wb = (\<lambda>st. if at_word_boundary st then [st] else [])"
| "rx_step (Cat a b) = (\<lambda>st. concat (map (rx_step b) (rx_step a st)))"
| "rx_step (Or a b) = (\<lambda>st. rx_step a st @ rx_step b st)"
| "rx_step (Opt a) = (\<lambda>st. st # rx_step a st)"
| "rx_step (Star a) = (\<lambda>st. rx_iter (length (snd st)) (rx_step a) st)"
| "rx_step (Plus a) =
     (\<lambda>st. concat (map (\<lambda>st'. rx_iter (length (snd st')) (rx_step a) st') (rx_step a st)))"

fun rx_search :: "rx \<Rightarrow> char option \<Rightarrow> string \<Rightarrow> bool" where
  "rx_search r prev [] = (rx_step r (prev, []) \<noteq> [])"
| "rx_search r prev (c # cs) = (rx_step r (prev, c # cs) \<noteq> [] \<or> rx_search r (Some c) cs)"

definition rx_test :: "rx \<Rightarrow> string \<Rightarrow> bool" where
  \<comment> \<open>\<^verbatim>\<open>/r/i.test(s)\<close>\<close>
  "rx_test r s = rx_search r None s"

fun cats :: "rx list \<Rightarrow> rx" where
  "cats [] = Lit []"
| "cats [r] = r"
| "cats (r # rs) = Cat r (cats rs)"

fun ors :: "rx list \<Rightarrow> rx" where
  "ors [] = Lit []"
| "ors [r] = r"
| "ors (r # rs) = Or r (ors rs)"

section \<open>csvTools: enrichment\<close>

definition js_or :: "string option \<Rightarrow> string option \<Rightarrow> string option" where
  \<comment> \<open>\<^verbatim>\<open>a || b\<close> on strings that may be undefined: the empty string is falsy\<close>
  "js_or a b = (case a of None \<Rightarrow> b | Some s \<Rightarrow> if s = [] then b else Some s)"

definition truthy_str :: "string option \<Rightarrow> bool" where
  "truthy_str a = (case a of None \<Rightarrow> False | Some s \<Rightarrow> s \<noteq> [])"

definition prop_key :: "string option \<Rightarrow> string" where
  \<comment> \<open>the property key of \<^verbatim>\<open>r[col]\<close>: \<^verbatim>\<open>undefined\<close> reads the key of that name\<close>
  "prop_key a = (case a of None \<Rightarrow> ''undefined'' | Some s \<Rightarrow> s)"

definition favCol_of :: "string list \<Rightarrow> string option" where
  "favCol_of headers =
     js_or (List.find (rx_test (cats [Lit ''favorite'', Opt Dot, Lit ''count''])) headers)
           (List.find (rx_test (cats [Bos, Lit ''like'', Opt (Lit ''s''), Eos])) headers)"

definition viewCol_of :: "string list \<Rightarrow> string option" where
  "viewCol_of headers =
     js_or (List.find (rx_test (cats [Lit ''view'', Opt Dot, Lit ''count''])) headers)
           (List.find (rx_test (cats [Bos, Lit ''view'', Opt (Lit ''s''), Eos])) headers)"

definition engagement_of :: "string \<Rightarrow> string \<Rightarrow> row \<Rightarrow> jsval" where
  "engagement_of favCol viewCol r =
     (let fav = parseFloat (obj_get r favCol);
          view = parseFloat (obj_get r viewCol)
      in if \<not> isNaN fav \<and> \<not> isNaN view \<and> js_less (Fin 0) view
         then JNum (toFixed 6 (js_div fav view))
         else JNull)"

definition enrichWithEngagement :: "row list \<Rightarrow> string list \<Rightarrow> row list \<times> string list" where
  "enrichWithEngagement rows headers =
     (if rows = [] then (rows, headers)
      else
        let favCol = favCol_of headers; viewCol = viewCol_of headers
        in if \<not> truthy_str favCol \<or> \<not> truthy_str viewCol then (rows, headers)
           else if ''engagement'' \<in> set headers then (rows, headers)
           else
             (map (\<lambda>r. obj_set (own_entries r) ''engagement''
                          (engagement_of (prop_key favCol) (prop_key viewCol) r)) rows,
              headers @ [''engagement'']))"

subsection \<open>Enrichment on a store\<close>

text \<open>
  Whether \<^verbatim>\<open>enrichWithEngagement\<close> mutates its arguments is a question about
  references, so the same function is written once more over a store: a heap is the
  list of its cells, an address is an index, and allocation appends. The row array holds
  the addresses of its row objects.
\<close>

datatype cell = RowObj row | RowArr "nat list" | StrArr "string list"

type_synonym heap = "cell list"

definition lookup :: "heap \<Rightarrow> nat \<Rightarrow> cell option" where
  "lookup h a = (if a < length h then Some (h ! a) else None)"

definition alloc :: "heap \<Rightarrow> cell \<Rightarrow> heap \<times> nat" where
  "alloc h c = (h @ [c], length h)"

definition enrich_row :: "string \<Rightarrow> string \<Rightarrow> row \<Rightarrow> row" where
  \<comment> \<open>\<^verbatim>\<open>{ ...r, engagement: eng }\<close>\<close>
  "enrich_row favCol viewCol r = obj_set (own_entries r) ''engagement'' (engagement_of favCol viewCol r)"

fun map_rows_heap :: "heap \<Rightarrow> string \<Rightarrow> string \<Rightarrow> nat list \<Rightarrow> (heap \<times> nat list) option" where
  \<comment> \<open>\<^verbatim>\<open>rows.map((r) => ({ ...r, engagement: eng }))\<close>: one fresh object for each element\<close>
  "map_rows_heap h favCol viewCol [] = Some (h, [])"
| "map_rows_heap h favCol viewCol (r # rs) =
     (case lookup h r of
        Some (RowObj ob) \<Rightarrow>
          (case alloc h (RowObj (enrich_row favCol viewCol ob)) of (h1, a) \<Rightarrow>
             (case map_rows_heap h1 favCol viewCol rs of
                None \<Rightarrow> None
              | Some (h2, as) \<Rightarrow> Some (h2, a # as)))
      | _ \<Rightarrow> None)"

definition enrich_applies :: "nat list \<Rightarrow> string list \<Rightarrow> bool" where
  \<comment> \<open>none of the three early returns is taken\<close>
  "enrich_applies rs headers =
     (rs \<noteq> [] \<and> truthy_str (favCol_of headers) \<and> truthy_str (viewCol_of headers)
      \<and> ''engagement'' \<notin> set headers)"

definition enrich_heap :: "heap \<Rightarrow> nat \<Rightarrow> nat \<Rightarrow> (heap \<times> nat \<times> nat) option" where
  \<comment> \<open>\<open>None\<close> when an argument is not an array of the expected kind\<close>
  "enrich_heap h rowsRef headersRef =
     (case (lookup h rowsRef, lookup h headersRef) of
        (Some (RowArr rs), Some (StrArr headers)) \<Rightarrow>
          if rs = [] then Some (h, rowsRef, headersRef)
          else
            let favCol = favCol_of headers; viewCol = viewCol_of headers
            in if \<not> truthy_str favCol \<or> \<not> truthy_str viewCol then Some (h, rowsRef, headersRef)
               else if ''engagement'' \<in> set headers then Some (h, rowsRef, headersRef)
               else
                 (case map_rows_heap h (prop_key favCol) (prop_key viewCol) rs of
                    None \<Rightarrow> None
                  | Some (h1, refs) \<Rightarrow>
                      (case alloc h1 (RowArr refs) of (h2, enriched) \<Rightarrow>
                         (case alloc h2 (StrArr (headers @ [''engagement''])) of (h3, headers') \<Rightarrow>
                            Some (h3, enriched, headers'))))
      | _ \<Rightarrow> None)"

definition row_at :: "heap \<Rightarrow> nat \<Rightarrow> row" where
  \<comment> \<open>the row object at an address\<close>
  "row_at h a = (case lookup h a of Some (RowObj ob) \<Rightarrow> ob | _ \<Rightarrow> [])"

definition is_row :: "heap \<Rightarrow> nat \<Rightarrow> bool" where
  "is_row h a = (case lookup h a of Some (RowObj ob) \<Rightarrow> True | _ \<Rightarrow> False)"

section \<open>csvTools: parsing delimited text\<close>


definition newline :: char where
  "newline = CHR 0x0A"









section \<open>csvTools: column lookup, statistics and frequency tables\<close>

text \<open>
  Three built-ins of the platform have no closed form on this model of numbers and are
  parameters of everything that uses them: the decimal text of a number
  (\<^verbatim>\<open>String(n)\<close>), the time value of \<^verbatim>\<open>new Date(v)\<close> (\<open>NaN\<close> for an
  invalid date) and the short date label of \<^verbatim>\<open>toLocaleDateString\<close>.
\<close>

record builtins =
  Number_toString :: "jsnum \<Rightarrow> string"
  Date_getTime :: "jsval \<Rightarrow> jsnum"
  Date_label :: "jsnum \<Rightarrow> string"

fun to_str :: "builtins \<Rightarrow> jsval \<Rightarrow> string" where
  \<comment> \<open>\<^verbatim>\<open>String(v)\<close>, also the property key of \<^verbatim>\<open>ob[v]\<close>\<close>
  "to_str js (JStr s) = s"
| "to_str js (JNum n) = Number_toString js n"
| "to_str js (JBool b) = (if b then ''true'' else ''false'')"
| "to_str js JNull = ''null''"
| "to_str js JUndefined = ''undefined''"

fun truthy :: "jsval \<Rightarrow> bool" where
  "truthy (JStr s) = (s \<noteq> [])"
| "truthy (JNum n) = (n \<noteq> NaN \<and> n \<noteq> Fin 0)"
| "truthy (JBool b) = b"
| "truthy v = False"

definition norm_key :: "string \<Rightarrow> string" where
  \<comment> \<open>the local function \<^verbatim>\<open>norm\<close> of \<^verbatim>\<open>resolveCol\<close>: \<^verbatim>\<open>s.toLowerCase().replace(/[\s_-]+/g, '')\<close>\<close>
  "norm_key s = filter (\<lambda>c. \<not> (is_ws c \<or> c = CHR ''_'' \<or> c = CHR ''-'')) (toLowerCase s)"

definition resolveCol :: "row list \<Rightarrow> string option \<Rightarrow> string option" where
  "resolveCol rows name =
     (case rows of
        [] \<Rightarrow> name
      | r0 # _ \<Rightarrow>
          (case name of
             None \<Rightarrow> name
           | Some n \<Rightarrow>
               if n = [] then name
               else
                 let keys = own_keys r0
                 in if n \<in> set keys then name
                    else js_or (List.find (\<lambda>k. norm_key k = norm_key n) keys) name))"

definition numericValues :: "row list \<Rightarrow> string \<Rightarrow> jsnum list" where
  "numericValues rows col = filter (\<lambda>v. \<not> isNaN v) (map (\<lambda>r. parseFloat (obj_get r col)) rows)"

definition num_at :: "jsnum list \<Rightarrow> int \<Rightarrow> jsnum" where
  \<comment> \<open>an element read for arithmetic: out of range it is \<^verbatim>\<open>undefined\<close>, hence NaN\<close>
  "num_at xs i = (if 0 \<le> i \<and> i < int (length xs) then xs ! nat i else NaN)"

definition median :: "jsnum list \<Rightarrow> jsnum" where
  \<comment> \<open>the argument is the sorted list\<close>
  "median xs =
     (if length xs mod 2 = 0
      then js_div (js_add (num_at xs (int (length xs div 2) - 1))
                          (num_at xs (int (length xs div 2)))) (Fin 2)
      else num_at xs (int (length xs div 2)))"

definition fmt :: "jsnum \<Rightarrow> jsnum" where
  "fmt n = toFixed 4 n"

fun js_insert :: "('a \<Rightarrow> 'a \<Rightarrow> jsnum) \<Rightarrow> 'a \<Rightarrow> 'a list \<Rightarrow> 'a list" where
  "js_insert cmp x [] = [x]"
| "js_insert cmp x (y # ys) =
     (if js_less (Fin 0) (cmp x y) then y # js_insert cmp x ys else x # y # ys)"

definition js_sort :: "('a \<Rightarrow> 'a \<Rightarrow> jsnum) \<Rightarrow> 'a list \<Rightarrow> 'a list" where
  \<comment> \<open>\<^verbatim>\<open>xs.sort(cmp)\<close>: the sort is stable, and only a positive result of the
     comparison moves an element behind a later one (NaN counts as zero). For a comparison
     that orders the elements consistently this is the one result a stable sort can give.\<close>
  "js_sort cmp xs = foldr (js_insert cmp) xs []"

definition js_slice0 :: "'a list \<Rightarrow> real \<Rightarrow> 'a list" where
  \<comment> \<open>\<^verbatim>\<open>xs.slice(0, n)\<close>: \<open>n\<close> is truncated, a negative \<open>n\<close> counts from the end\<close>
  "js_slice0 xs n =
     (let k = (if n \<ge> 0 then \<lfloor>n\<rfloor> else \<lceil>n\<rceil>)
      in if k < 0 then take (nat (int (length xs) + k)) xs else take (nat k) xs)"

definition num_or :: "real option \<Rightarrow> real \<Rightarrow> real" where
  \<comment> \<open>\<^verbatim>\<open>a || d\<close> on an optional number: zero is falsy\<close>
  "num_or a d = (case a of None \<Rightarrow> d | Some x \<Rightarrow> if x = 0 then d else x)"

definition availableHeaders_of :: "row list \<Rightarrow> string list" where
  "availableHeaders_of safeRows = (case safeRows of [] \<Rightarrow> [] | r0 # _ \<Rightarrow> own_keys r0)"

record stats =
  st_column :: "string option"
  st_count :: nat
  st_mean :: jsnum
  st_median :: jsnum
  st_std :: jsnum
  st_min :: jsnum
  st_max :: jsnum

definition mean_of :: "jsnum list \<Rightarrow> jsnum" where
  \<comment> \<open>\<^verbatim>\<open>vals.reduce((a, b) => a + b, 0) / vals.length\<close>\<close>
  "mean_of vals = js_div (foldl js_add (Fin 0) vals) (Fin (real (length vals)))"

definition variance_of :: "jsnum list \<Rightarrow> jsnum" where
  \<comment> \<open>\<^verbatim>\<open>vals.reduce((a, b) => a + (b - mean) ** 2, 0) / vals.length\<close>\<close>
  "variance_of vals =
     js_div (foldl (\<lambda>a b. js_add a (js_sq (js_sub b (mean_of vals)))) (Fin 0) vals)
            (Fin (real (length vals)))"

definition stats_of :: "string option \<Rightarrow> jsnum list \<Rightarrow> stats" where
  \<comment> \<open>the result object shared by \<^verbatim>\<open>compute_column_stats\<close> and \<^verbatim>\<open>compute_stats_json\<close>\<close>
  "stats_of col vals =
     \<lparr> st_column = col,
       st_count = length vals,
       st_mean = fmt (mean_of vals),
       st_median = fmt (median (js_sort js_sub vals)),
       st_std = fmt (js_sqrt (variance_of vals)),
       st_min = Math_min vals,
       st_max = Math_max vals \<rparr>"

definition count_step :: "nat obj \<Rightarrow> string \<Rightarrow> nat obj" where
  \<comment> \<open>\<^verbatim>\<open>counts[v] = (counts[v] || 0) + 1\<close>\<close>
  "count_step counts k =
     obj_set counts k ((case map_of counts k of None \<Rightarrow> 0 | Some c \<Rightarrow> c) + 1)"

definition count_keys :: "string list \<Rightarrow> nat obj" where
  "count_keys ks = foldl count_step [] ks"

definition by_count_desc :: "string \<times> nat \<Rightarrow> string \<times> nat \<Rightarrow> jsnum" where
  \<comment> \<open>\<^verbatim>\<open>(a, b) => b[1] - a[1]\<close>\<close>
  "by_count_desc a b = js_sub (Fin (real (snd b))) (Fin (real (snd a)))"

definition rank_counts :: "nat obj \<Rightarrow> (string \<times> nat) list" where
  \<comment> \<open>\<^verbatim>\<open>Object.entries(counts).sort((a, b) => b[1] - a[1])\<close>\<close>
  "rank_counts counts = js_sort by_count_desc (own_entries counts)"

definition fromEntries :: "(string \<times> 'v) list \<Rightarrow> 'v obj" where
  \<comment> \<open>\<^verbatim>\<open>Object.fromEntries(es)\<close>\<close>
  "fromEntries es = foldl (\<lambda>ob kv. obj_set ob (fst kv) (snd kv)) [] es"

definition value_count_keys :: "builtins \<Rightarrow> row list \<Rightarrow> string \<Rightarrow> string list" where
  \<comment> \<open>the keys counted by \<^verbatim>\<open>get_value_counts\<close>, in the order of the row scan\<close>
  "value_count_keys js rows col =
     map (to_str js) (filter (\<lambda>v. v \<noteq> JUndefined \<and> v \<noteq> JStr []) (map (\<lambda>r. obj_get r col) rows))"

definition summary_vals :: "row list \<Rightarrow> string \<Rightarrow> jsval list" where
  \<comment> \<open>the non-empty cells of a column, as \<^verbatim>\<open>computeDatasetSummary\<close> filters them\<close>
  "summary_vals rows h =
     filter (\<lambda>v. v \<noteq> JStr [] \<and> v \<noteq> JUndefined \<and> v \<noteq> JNull) (map (\<lambda>r. obj_get r h) rows)"

definition summary_top :: "builtins \<Rightarrow> row list \<Rightarrow> string \<Rightarrow> (string \<times> nat) list" where
  \<comment> \<open>the entries behind the \<^verbatim>\<open>top\<close> text of a categorical column\<close>
  "summary_top js rows h =
     js_slice0 (rank_counts (count_keys (map (to_str js) (summary_vals rows h)))) 5"


section \<open>csvTools: the tool executor\<close>

text \<open>
  The argument object of a tool call, with the fields and types of the tool
  declarations: a field the caller left out is \<open>None\<close>.
\<close>

record tool_args =
  a_column :: "string option"
  a_top_n :: "real option"
  a_sort_column :: "string option"
  a_n :: "real option"
  a_ascending :: "bool option"
  a_metric_column :: "string option"
  a_date_column :: "string option"
  a_video_url :: "string option"
  a_search_by_title :: "string option"
  a_most_viewed :: "bool option"
  a_ordinal :: "real option"
  a_title :: "string option"
  a_thumbnail_url :: "string option"
  a_field :: "string option"
  a_prompt :: "string option"

record chart_point =
  cp_date :: jsval
  cp_value :: jsnum
  cp_label :: string

record attached_image =
  img_data :: "string option"
  img_mimeType :: "string option"

datatype tool_result =
    ToolError string
  | ColumnStats stats
  | ValueCounts "string option" nat "nat obj"
  | TopTweets "string option" string nat "jsval obj list"
  | MetricVsTime "chart_point list" "string option" "string option"
  | OpenUrl string string "string option"
  | FieldStats stats
  | GeneratedImage string string

definition headers_text :: "string list \<Rightarrow> string" where
  \<comment> \<open>\<^verbatim>\<open>availableHeaders.join(', ')\<close>\<close>
  "headers_text hs = join_with '', '' hs"

definition compute_column_stats :: "tool_args \<Rightarrow> row list \<Rightarrow> tool_result" where
  "compute_column_stats args safeRows =
     (let col = resolveCol safeRows (a_column args);
          vals = numericValues safeRows (prop_key col)
      in if vals = []
         then ToolError (''No numeric values found in column \"'' @ prop_key col
                @ ''\". Available columns: '' @ headers_text (availableHeaders_of safeRows))
         else ColumnStats (stats_of col vals))"

definition compute_stats_json :: "tool_args \<Rightarrow> row list \<Rightarrow> tool_result" where
  "compute_stats_json args safeRows =
     (let field = resolveCol safeRows (a_field args);
          vals = numericValues safeRows (prop_key field)
      in if vals = []
         then ToolError (''No numeric values in field \"'' @ prop_key field
                @ ''\". Available: '' @ headers_text (availableHeaders_of safeRows))
         else FieldStats (stats_of field vals))"

definition get_value_counts :: "builtins \<Rightarrow> tool_args \<Rightarrow> row list \<Rightarrow> tool_result" where
  "get_value_counts js args safeRows =
     (let col = resolveCol safeRows (a_column args);
          topN = num_or (a_top_n args) 10;
          counts = count_keys (value_count_keys js safeRows (prop_key col));
          sorted_entries = js_slice0 (rank_counts counts) topN
      in ValueCounts col (length safeRows) (fromEntries sorted_entries))"

definition by_column :: "string \<Rightarrow> bool \<Rightarrow> row \<Rightarrow> row \<Rightarrow> jsnum" where
  \<comment> \<open>the comparison of \<^verbatim>\<open>get_top_tweets\<close>\<close>
  "by_column sortCol asc a b =
     (let av = parseFloat (obj_get a sortCol); bv = parseFloat (obj_get b sortCol)
      in if \<not> isNaN av \<and> \<not> isNaN bv then (if asc then js_sub av bv else js_sub bv av)
         else Fin 0)"

definition top_row :: "builtins \<Rightarrow> string option \<Rightarrow> string option \<Rightarrow> string option \<Rightarrow> bool
    \<Rightarrow> row \<Rightarrow> nat \<Rightarrow> jsval obj" where
  \<comment> \<open>the object \<^verbatim>\<open>out\<close> built for the row at index \<open>i\<close>\<close>
  "top_row js textCol favCol viewCol engCol r i =
     (let out0 = obj_set [] ''rank'' (JNum (Fin (real (i + 1))));
          out1 = (if truthy_str textCol
                  then obj_set out0 ''text''
                         (JStr (take 150 (if truthy (obj_get r (prop_key textCol))
                                          then to_str js (obj_get r (prop_key textCol)) else [])))
                  else out0);
          out2 = (if truthy_str favCol
                  then obj_set out1 (prop_key favCol) (obj_get r (prop_key favCol)) else out1);
          out3 = (if truthy_str viewCol
                  then obj_set out2 (prop_key viewCol) (obj_get r (prop_key viewCol)) else out2)
      in if engCol then obj_set out3 ''engagement'' (obj_get r ''engagement'') else out3)"

definition get_top_tweets :: "builtins \<Rightarrow> tool_args \<Rightarrow> row list \<Rightarrow> tool_result" where
  "get_top_tweets js args safeRows =
     (let availableHeaders = availableHeaders_of safeRows;
          sortCol = js_or (resolveCol safeRows (a_sort_column args)) (a_sort_column args);
          n = num_or (a_n args) 10;
          asc = (case a_ascending args of None \<Rightarrow> False | Some b \<Rightarrow> b);
          textCol = js_or (List.find (rx_test (cats [Bos, Lit ''text'', Eos])) availableHeaders)
                          (List.find (rx_test (ors [Lit ''text'', Lit ''content'', Lit ''tweet'',
                                                    Lit ''body''])) availableHeaders);
          favCol = List.find (rx_test (cats [Lit ''favorite'', Opt Dot, Lit ''count''])) availableHeaders;
          viewCol = List.find (rx_test (cats [Lit ''view'', Opt Dot, Lit ''count''])) availableHeaders;
          engCol = (''engagement'' \<in> set availableHeaders);
          sorted_rows = js_sort (by_column (prop_key sortCol) asc) safeRows;
          top = js_slice0 sorted_rows n;
          topRows = map (\<lambda>ri. top_row js textCol favCol viewCol engCol (fst ri) (snd ri))
                      (zip top [0 ..< length top])
      in if topRows = []
         then ToolError (''No rows found. Column \"'' @ prop_key sortCol
                @ ''\" may not exist. Available: '' @ headers_text availableHeaders)
         else TopTweets sortCol
                (if asc then ''ascending (lowest first)'' else ''descending (highest first)'')
                (length topRows) topRows)"

record time_point =
  tp_date :: jsval
  tp_parsed :: jsnum
  tp_value :: jsnum

definition time_point_of :: "builtins \<Rightarrow> string \<Rightarrow> string \<Rightarrow> row \<Rightarrow> time_point option" where
  \<comment> \<open>the body of the \<^verbatim>\<open>map\<close> of \<^verbatim>\<open>plot_metric_vs_time\<close>: \<open>None\<close> is \<^verbatim>\<open>null\<close>\<close>
  "time_point_of js metricCol dateCol r =
     (let dateVal = obj_get r dateCol; numVal = parseFloat (obj_get r metricCol)
      in if \<not> truthy dateVal \<or> isNaN numVal then None
         else if isNaN (Date_getTime js dateVal) then None
         else Some \<lparr> tp_date = dateVal, tp_parsed = Date_getTime js dateVal, tp_value = numVal \<rparr>)"

definition plot_metric_vs_time :: "builtins \<Rightarrow> tool_args \<Rightarrow> row list \<Rightarrow> tool_result" where
  "plot_metric_vs_time js args safeRows =
     (if safeRows = []
      then ToolError ''No channel data loaded. Please drag and drop a JSON file with your YouTube channel data first, then ask to plot.''
      else
        let metricCol = resolveCol safeRows (a_metric_column args);
            dateCol = resolveCol safeRows (a_date_column args);
            vals = List.map_filter (time_point_of js (prop_key metricCol) (prop_key dateCol)) safeRows
        in if vals = []
           then ToolError (''No valid date+metric pairs. Check columns \"'' @ prop_key metricCol
                  @ ''\" and \"'' @ prop_key dateCol @ ''\". Available: ''
                  @ headers_text (availableHeaders_of safeRows))
           else MetricVsTime
                  (map (\<lambda>v. \<lparr> cp_date = tp_date v, cp_value = tp_value v,
                               cp_label = Date_label js (tp_parsed v) \<rparr>)
                     (js_sort (\<lambda>a b. js_sub (tp_parsed a) (tp_parsed b)) vals))
                  metricCol dateCol)"

record video_pick =
  vp_url :: string
  vp_displayTitle :: string
  vp_thumbnailUrl :: "string option"

definition ordinal_suffix :: "real \<Rightarrow> string" where
  "ordinal_suffix n = (if n = 1 then ''st'' else if n = 2 then ''nd'' else if n = 3 then ''rd'' else ''th'')"

definition pickMatch :: "builtins \<Rightarrow> string option \<Rightarrow> string option \<Rightarrow> string option
    \<Rightarrow> string option \<Rightarrow> row option \<Rightarrow> video_pick \<Rightarrow> video_pick" where
  \<comment> \<open>the closure \<^verbatim>\<open>pickMatch\<close>; the three variables it assigns are the picked state\<close>
  "pickMatch js titleCol urlCol idCol thumbCol m st =
     (case m of
        None \<Rightarrow> st
      | Some r \<Rightarrow>
          let rawUrl = (if truthy (obj_get r (prop_key urlCol)) then obj_get r (prop_key urlCol)
                        else obj_get r (prop_key idCol))
          in if truthy rawUrl
             then \<lparr> vp_url = trim (to_str js rawUrl),
                    vp_displayTitle =
                      (if truthy_str titleCol \<and> truthy (obj_get r (prop_key titleCol))
                       then to_str js (obj_get r (prop_key titleCol)) else vp_displayTitle st),
                    vp_thumbnailUrl =
                      (if truthy_str thumbCol \<and> truthy (obj_get r (prop_key thumbCol))
                       then Some (to_str js (obj_get r (prop_key thumbCol))) else vp_thumbnailUrl st) \<rparr>
             else st)"

definition finish_video :: "video_pick \<Rightarrow> tool_result" where
  \<comment> \<open>the end of the \<^verbatim>\<open>play_video\<close> case, after the lookup\<close>
  "finish_video st =
     (if vp_url st = []
      then ToolError ''Provide video_url, search_by_title, most_viewed: true, or ordinal to find the video in the loaded data.''
      else OpenUrl
             (if rx_test (cats [Bos, Lit ''http'', Opt (Lit ''s''), Lit ''://'']) (vp_url st)
              then vp_url st else ''https://www.youtube.com/watch?v='' @ vp_url st)
             (vp_displayTitle st) (vp_thumbnailUrl st))"

definition num_or0 :: "jsnum \<Rightarrow> jsnum" where
  \<comment> \<open>\<^verbatim>\<open>parseFloat(x) || 0\<close>\<close>
  "num_or0 n = (if n = NaN \<or> n = Fin 0 then Fin 0 else n)"

definition nth_row :: "row list \<Rightarrow> int \<Rightarrow> row option" where
  \<comment> \<open>\<^verbatim>\<open>rows[i]\<close>: out of range it is \<^verbatim>\<open>undefined\<close>\<close>
  "nth_row rows i = (if 0 \<le> i \<and> i < int (length rows) then Some (rows ! nat i) else None)"

definition play_video :: "builtins \<Rightarrow> tool_args \<Rightarrow> row list \<Rightarrow> tool_result" where
  "play_video js args safeRows =
     (let availableHeaders = availableHeaders_of safeRows;
          st0 = \<lparr> vp_url = (case a_video_url args of None \<Rightarrow> [] | Some u \<Rightarrow> trim u),
                  vp_displayTitle = prop_key (js_or (a_title args) (Some ''Watch video'')),
                  vp_thumbnailUrl = js_or (a_thumbnail_url args) None \<rparr>;
          titleCol = js_or (List.find (rx_test (cats [Bos, Lit ''title'', Eos])) availableHeaders)
                       (List.find (rx_test (ors [Lit ''title'', Lit ''name'', Lit ''videoTitle'',
                                                 Lit ''text''])) availableHeaders);
          urlCol = js_or (List.find (rx_test (cats [Bos, Lit ''videoUrl'', Eos])) availableHeaders)
                     (List.find (rx_test (ors [Lit ''videoUrl'', Lit ''video_url'', Lit ''url'']))
                        availableHeaders);
          idCol = js_or (List.find (rx_test (cats [Bos, Lit ''videoId'', Eos])) availableHeaders)
                    (List.find (rx_test (ors [Lit ''videoId'', Lit ''video_id'', Lit ''id'']))
                       availableHeaders);
          viewCol = js_or (List.find (rx_test (cats [Bos, Lit ''viewCount'', Eos])) availableHeaders)
                      (List.find (rx_test (ors [Lit ''viewCount'',
                                                cats [Lit ''view'', Opt Dot, Lit ''count''],
                                                Lit ''views''])) availableHeaders);
          thumbCol = List.find (rx_test (Lit ''thumbnail'')) availableHeaders;
          pick = pickMatch js titleCol urlCol idCol thumbCol
      in if vp_url st0 = [] \<and> truthy_str (a_search_by_title args)
         then
           (let searchTerm = toLowerCase (trim (prop_key (a_search_by_title args)))
            in if searchTerm = [] then ToolError ''search_by_title cannot be empty''
               else if \<not> truthy_str titleCol
               then ToolError (''No title column found in channel data. Available: ''
                      @ headers_text availableHeaders)
               else
                 (case List.find (\<lambda>r. includes_str searchTerm
                          (toLowerCase (if truthy (obj_get r (prop_key titleCol))
                                        then to_str js (obj_get r (prop_key titleCol)) else [])))
                        safeRows of
                    None \<Rightarrow> ToolError (''No video found with \"'' @ prop_key (a_search_by_title args)
                              @ ''\" in the title. Try a different keyword.'')
                  | Some m \<Rightarrow> finish_video (pick (Some m) st0)))
         else if vp_url st0 = [] \<and> a_most_viewed args = Some True
         then
           (if \<not> truthy_str viewCol
            then ToolError (''No view count column found. Available: '' @ headers_text availableHeaders)
            else
              finish_video
                (pick (nth_row (js_sort (\<lambda>a b. js_sub (num_or0 (parseFloat (obj_get b (prop_key viewCol))))
                                                         (num_or0 (parseFloat (obj_get a (prop_key viewCol)))))
                                  safeRows) 0) st0))
         else
           (case a_ordinal args of
              None \<Rightarrow> finish_video st0
            | Some ordinal \<Rightarrow>
                if vp_url st0 = [] \<and> ordinal \<ge> 1
                then
                  (case nth_row safeRows (\<lfloor>ordinal\<rfloor> - 1) of
                     None \<Rightarrow> ToolError (''There is no '' @ Number_toString js (Fin ordinal)
                               @ ordinal_suffix ordinal @ '' video. Only ''
                               @ Number_toString js (Fin (real (length safeRows)))
                               @ '' video(s) in the data.'')
                   | Some m \<Rightarrow> finish_video (pick (Some m) st0))
                else finish_video st0))"

definition executeTool :: "builtins \<Rightarrow> (tool_args \<Rightarrow> attached_image list \<Rightarrow> tool_result)
    \<Rightarrow> string \<Rightarrow> tool_args \<Rightarrow> row list option \<Rightarrow> attached_image list option \<Rightarrow> tool_result" where
  \<comment> \<open>\<open>None\<close> for \<open>rows\<close> or \<open>attachedImages\<close> is a value that is not an array. The
     \<^verbatim>\<open>generateImage\<close> case talks to the image service; what it returns is the
     parameter \<open>generateImage\<close>.\<close>
  "executeTool js generateImage toolName args rows attachedImages =
     (let safeRows = (case rows of None \<Rightarrow> [] | Some rs \<Rightarrow> rs);
          safeImages = (case attachedImages of None \<Rightarrow> [] | Some is \<Rightarrow> is)
      in if toolName = ''compute_column_stats'' then compute_column_stats args safeRows
         else if toolName = ''get_value_counts'' then get_value_counts js args safeRows
         else if toolName = ''get_top_tweets'' then get_top_tweets js args safeRows
         else if toolName = ''plot_metric_vs_time'' then plot_metric_vs_time js args safeRows
         else if toolName = ''play_video'' then play_video js args safeRows
         else if toolName = ''compute_stats_json'' then compute_stats_json args safeRows
         else if toolName = ''generateImage'' then generateImage args safeImages
         else ToolError (''Unknown tool: '' @ toolName))"

definition no_args :: tool_args where
  \<comment> \<open>the empty argument object\<close>
  "no_args = \<lparr> a_column = None, a_top_n = None, a_sort_column = None, a_n = None,
     a_ascending = None, a_metric_column = None, a_date_column = None, a_video_url = None,
     a_search_by_title = None, a_most_viewed = None, a_ordinal = None, a_title = None,
     a_thumbnail_url = None, a_field = None, a_prompt = None \<rparr>"

subsection \<open>The per-column digest of the dataset summary\<close>

text \<open>
  \<^verbatim>\<open>computeDatasetSummary\<close> classifies each header and pushes a record to
  \<^verbatim>\<open>numericCols\<close> or to \<^verbatim>\<open>categoricalCols\<close>; \<open>column_digest\<close> is the body of
  that loop for one header. The text assembled from the two lists afterwards uses a
  bullet character outside the strings modelled here and is left out.
\<close>

datatype col_digest =
    NumericCol string nat jsnum jsnum jsnum
  | CategoricalCol string nat string

definition top_text :: "builtins \<Rightarrow> (string \<times> nat) list \<Rightarrow> string" where
  \<comment> \<open>\<^verbatim>\<open>.map(([v, n]) => `${v} (${n})`).join(', ')\<close>\<close>
  "top_text js es =
     join_with '', '' (map (\<lambda>e. fst e @ '' ('' @ Number_toString js (Fin (real (snd e))) @ '')'') es)"

definition column_digest :: "builtins \<Rightarrow> row list \<Rightarrow> string \<Rightarrow> col_digest" where
  "column_digest js rows h =
     (let vals = summary_vals rows h;
          numVals = filter (\<lambda>v. \<not> isNaN v) (map parseFloat vals);
          numericRatio = real (length numVals) / real (if vals = [] then 1 else length vals)
      in if numericRatio \<ge> 8 / 10 \<and> length numVals > 0
         then NumericCol h (length numVals) (toFixed 2 (mean_of numVals)) (Math_min numVals)
                (Math_max numVals)
         else CategoricalCol h (length (own_keys (count_keys (map (to_str js) vals))))
                (top_text js (summary_top js rows h)))"


section \<open>server: the retry wrapper of the image service\<close>

text \<open>
  An error thrown by \<^verbatim>\<open>replicate.run\<close> is seen through its message and through
  \<^verbatim>\<open>err.response?.headers?.get\<close>: \<open>e_headers\<close> is \<open>None\<close> when one link of that
  chain is missing, and the lookup gives \<open>None\<close> for \<^verbatim>\<open>null\<close>. Durations are exact
  integers of milliseconds.
\<close>

record run_error =
  e_message :: string
  e_headers :: "(string \<Rightarrow> string option) option"

definition is429 :: "string \<Rightarrow> bool" where
  \<comment> \<open>\<^verbatim>\<open>/429|too many requests|rate limit|throttl/i.test(msg)\<close>\<close>
  "is429 msg = rx_test (ors [Lit ''429'', Lit ''too many requests'', Lit ''rate limit'',
                             Lit ''throttl'']) msg"

definition retryAfterHeader_of :: "run_error \<Rightarrow> string option" where
  \<comment> \<open>\<^verbatim>\<open>get?.('retry-after') ?? get?.('Retry-After')\<close>\<close>
  "retryAfterHeader_of err =
     (case e_headers err of
        None \<Rightarrow> None
      | Some get \<Rightarrow> (case get ''retry-after'' of Some v \<Rightarrow> Some v | None \<Rightarrow> get ''Retry-After''))"

definition parseInt10 :: "string \<Rightarrow> int option" where
  \<comment> \<open>\<^verbatim>\<open>parseInt(s, 10)\<close>: \<open>None\<close> is NaN\<close>
  "parseInt10 s =
     (let t = dropWhile is_ws s;
          neg = (case t of [] \<Rightarrow> False | c # _ \<Rightarrow> c = CHR ''-'');
          u = (case t of [] \<Rightarrow> [] | c # r \<Rightarrow> if c = CHR ''-'' \<or> c = CHR ''+'' then r else t);
          ds = takeWhile is_digit u
      in if ds = [] then None else Some (if neg then - digits_val ds else digits_val ds))"

fun strip_prefix_ci :: "string \<Rightarrow> string \<Rightarrow> string option" where
  \<comment> \<open>the rest of the string after a prefix matched without regard to case\<close>
  "strip_prefix_ci [] s = Some s"
| "strip_prefix_ci (p # ps) [] = None"
| "strip_prefix_ci (p # ps) (c # cs) = (if to_lower p = to_lower c then strip_prefix_ci ps cs else None)"

definition skip_opt :: "char \<Rightarrow> string \<Rightarrow> string" where
  \<comment> \<open>an optional character, taken when it is there\<close>
  "skip_opt x s = (case s of [] \<Rightarrow> [] | c # cs \<Rightarrow> if to_lower c = to_lower x then cs else s)"

definition resets_in_at :: "string \<Rightarrow> string option" where
  \<comment> \<open>\<^verbatim>\<open>/resets?\s+in\s+~?(\d+)/i\<close> matched at the head of the string: the digits captured\<close>
  "resets_in_at s =
     (case strip_prefix_ci ''reset'' s of
        None \<Rightarrow> None
      | Some r1 \<Rightarrow>
          let r2 = skip_opt (CHR ''s'') r1
          in if takeWhile is_ws r2 = [] then None
             else
               (case strip_prefix_ci ''in'' (dropWhile is_ws r2) of
                  None \<Rightarrow> None
                | Some r3 \<Rightarrow>
                    if takeWhile is_ws r3 = [] then None
                    else
                      let r4 = skip_opt (CHR ''~'') (dropWhile is_ws r3)
                      in if takeWhile is_digit r4 = [] then None else Some (takeWhile is_digit r4)))"

definition tilde_seconds_at :: "string \<Rightarrow> string option" where
  \<comment> \<open>\<^verbatim>\<open>/~(\d+)\s*s/i\<close> matched at the head of the string\<close>
  "tilde_seconds_at s =
     (case s of
        [] \<Rightarrow> None
      | c # cs \<Rightarrow>
          if c = CHR ''~'' \<and> takeWhile is_digit cs \<noteq> []
             \<and> (case dropWhile is_ws (dropWhile is_digit cs) of
                    [] \<Rightarrow> False | x # _ \<Rightarrow> to_lower x = CHR ''s'')
          then Some (takeWhile is_digit cs) else None)"

fun first_match :: "(string \<Rightarrow> 'a option) \<Rightarrow> string \<Rightarrow> 'a option" where
  \<comment> \<open>the leftmost position at which the pattern matches\<close>
  "first_match m [] = m []"
| "first_match m (c # cs) = (case m (c # cs) of Some r \<Rightarrow> Some r | None \<Rightarrow> first_match m cs)"

definition hint_of :: "string \<Rightarrow> string option" where
  \<comment> \<open>\<^verbatim>\<open>msg.match(/resets?\s+in\s+~?(\d+)/i) || msg.match(/~(\d+)\s*s/i)\<close>, the group\<close>
  "hint_of msg =
     (case first_match resets_in_at msg of
        Some ds \<Rightarrow> Some ds
      | None \<Rightarrow> first_match tilde_seconds_at msg)"

definition waitMs_of :: "run_error \<Rightarrow> int" where
  "waitMs_of err =
     (if truthy_str (retryAfterHeader_of err)
      then (case parseInt10 (prop_key (retryAfterHeader_of err)) of
              None \<Rightarrow> 15000
            | Some sec \<Rightarrow> min (sec * 1000) 60000)
      else (case hint_of (e_message err) of
              None \<Rightarrow> 15000
            | Some ds \<Rightarrow> min (digits_val ds * 1000 + 2000) 60000))"

record 'a retry_result =
  rr_outcome :: "run_error + 'a"
  rr_waits :: "int list"
  rr_attempts :: nat

function retry_from :: "(nat \<Rightarrow> run_error + 'a) \<Rightarrow> nat \<Rightarrow> nat \<Rightarrow> 'a retry_result" where
  \<comment> \<open>the \<^verbatim>\<open>for\<close> loop from \<open>attempt\<close> on: \<open>run i\<close> is what the call number \<open>i\<close> of
     \<^verbatim>\<open>replicate.run\<close> does, \<open>Inl\<close> when it throws. The result carries what the wrapper
     returns or throws, the sleeps in order and the number of calls made.\<close>
  "retry_from run maxRetries attempt =
     (case run attempt of
        Inr v \<Rightarrow> \<lparr> rr_outcome = Inr v, rr_waits = [], rr_attempts = 1 \<rparr>
      | Inl err \<Rightarrow>
          if is429 (e_message err) \<and> attempt < maxRetries
          then (let r = retry_from run maxRetries (attempt + 1)
                in r\<lparr> rr_waits := waitMs_of err # rr_waits r, rr_attempts := rr_attempts r + 1 \<rparr>)
          else \<lparr> rr_outcome = Inl err, rr_waits = [], rr_attempts = 1 \<rparr>)"
  by pat_completeness auto
termination
  by (relation "measure (\<lambda>(run, maxRetries, attempt). maxRetries - attempt)") auto

declare retry_from.simps [simp del]

definition replicateRunWithRetry :: "(nat \<Rightarrow> run_error + 'a) \<Rightarrow> nat \<Rightarrow> 'a retry_result" where
  "replicateRunWithRetry run maxRetries = retry_from run maxRetries 0"

definition default_maxRetries :: nat where
  "default_maxRetries = 3"

section \<open>Chat: routing a turn\<close>

text \<open>
  The routing block of \<^verbatim>\<open>handleSend\<close> decides between the client-side tools, code
  execution and plain streaming. The pattern \<^verbatim>\<open>CODE_KEYWORDS\<close> is imported from the
  Gemini service module (\<^verbatim>\<open>services/gemini\<close>); its test is the parameter of that
  name. Each definition below is one \<^verbatim>\<open>const\<close> of the block.
\<close>

record message_part =
  p_type :: string
  p_text :: string

record message =
  m_role :: string
  m_content :: "string option"
  m_parts :: "message_part list option"

record routing =
  r_forceToolsForImage :: bool
  r_useTools :: bool
  r_useCodeExecution :: bool

definition messageText :: "message \<Rightarrow> string" where
  "messageText m =
     (let parts = (case m_parts m of None \<Rightarrow> [] | Some ps \<Rightarrow> ps)
      in if parts \<noteq> []
         then join_with [newline] (map p_text (filter (\<lambda>p. p_type p = ''text'') parts))
         else prop_key (js_or (m_content m) (Some [])))"

definition PYTHON_ONLY_KEYWORDS :: rx where
  "PYTHON_ONLY_KEYWORDS =
     cats [Wb, ors [Lit ''regression'', Lit ''scatter'', Lit ''histogram'', Lit ''seaborn'',
                    Lit ''matplotlib'', Lit ''numpy'', cats [Lit ''time'', Opt Dot, Lit ''series''],
                    Lit ''heatmap'', cats [Lit ''box'', Opt Dot, Lit ''plot''], Lit ''violin'',
                    Lit ''distribut'', cats [Lit ''linear'', Opt Dot, Lit ''model''], Lit ''logistic'',
                    Lit ''forecast'', cats [Lit ''trend'', Opt Dot, Lit ''line'']], Wb]"

definition wantImageGen_rx :: rx where
  "wantImageGen_rx =
     ors [cats [Wb, ors [Lit ''generate'', Lit ''create'', Lit ''draw'', Lit ''make'', Lit ''style'',
                         Lit ''chic'', Lit ''stylish''],
                Star Dot, ors [Lit ''image'', Lit ''pic'', Lit ''photo'', Lit ''picture'']],
          cats [Lit ''image'', Plus Sp, Lit ''generat''],
          cats [Lit ''put'', Plus Sp, ors [Lit ''me'', Lit ''this'', Lit ''him'', Lit ''her''],
                Plus Sp, Lit ''in''],
          cats [ors [Lit ''transform'', Lit ''style'', Lit ''make''], Plus Sp,
                ors [Lit ''this'', Lit ''me'', Lit ''it'', Lit ''him'', Lit ''her'']],
          cats [Lit ''get'', Plus Sp, Star Dot, Plus Sp, Lit ''image''],
          cats [ors [Lit ''try'', Lit ''do''], Plus Sp, Lit ''it'', Plus Sp, Lit ''again''],
          cats [ors [Lit ''that'', Lit ''the''], Plus Sp, Star Dot, Plus Sp, Lit ''image''],
          cats [Lit ''try'', Plus Sp, Lit ''again''],
          cats [Lit ''let'', Opt (Lit [CHR 0x27]), Lit ''s'', Plus Sp, Lit ''try'']]"

definition mentionsImage_rx :: rx where
  "mentionsImage_rx =
     cats [Wb, ors [Lit ''image'', Lit ''photo'', Lit ''picture'', Lit ''generate'', Lit ''transform'',
                    Lit ''style'', Lit ''chic'', Lit ''stylish''], Wb]"

definition wantPlot_rx :: rx where
  "wantPlot_rx =
     ors [cats [Wb, Lit ''plot'', Plus Sp, Star Dot, Plus Sp, ors [Lit ''vs'', Lit ''over''],
                Plus Sp, Lit ''time''],
          cats [Lit ''plot'', Plus Sp, ors [Lit ''views'', Lit ''likes'', Lit ''metric'',
                                            Lit ''engagement'']],
          cats [Lit ''plot'', Plus Sp, Star Dot, Plus Sp, Lit ''over'', Plus Sp, Lit ''time''],
          cats [Lit ''channel'', Plus Sp, Lit ''video'', Opt (Lit ''s''), Plus Sp, Star Dot,
                Plus Sp, Lit ''plot'']]"

definition lastWasImageError_rx :: rx where
  "lastWasImageError_rx =
     ors [Lit ''image'', Lit ''generateImage'', Lit ''NameError'', Lit ''glitch'',
          Lit ''image generation tool'', Lit ''conjure'', Lit ''spell'']"

definition isRetryShort_rx :: rx where
  "isRetryShort_rx =
     cats [Wb, ors [Lit ''try'', Lit ''yes'', Lit ''retry'', Lit ''ok'', Lit ''sure'', Lit ''again'',
                    Lit ''please'', Lit ''do it'',
                    cats [Lit ''let'', Opt (Lit [CHR 0x27]), Lit ''s'']], Wb]"

definition action_verb_rx :: rx where
  \<comment> \<open>\<^verbatim>\<open>/\b(get|make|create|generate|draw|try|do|conjure)\b/i\<close>\<close>
  "action_verb_rx =
     cats [Wb, ors [Lit ''get'', Lit ''make'', Lit ''create'', Lit ''generate'', Lit ''draw'',
                    Lit ''try'', Lit ''do'', Lit ''conjure''], Wb]"

definition lastModelText_of :: "message list \<Rightarrow> string" where
  "lastModelText_of messages =
     (case List.find (\<lambda>m. m_role m = ''model'') (rev messages) of
        None \<Rightarrow> []
      | Some m \<Rightarrow> prop_key (js_or (m_content m) (js_or (Some (messageText m)) (Some []))))"

definition route :: "(string \<Rightarrow> bool) \<Rightarrow> string \<Rightarrow> row list option \<Rightarrow> string option
    \<Rightarrow> attached_image list \<Rightarrow> message list \<Rightarrow> routing" where
  \<comment> \<open>\<open>input\<close> is the text box, \<open>sessionCsvRows\<close> and \<open>csvContext\<close> are \<open>None\<close> for
     \<^verbatim>\<open>null\<close>; the attachment chip \<open>csvContext\<close> is known by its file name\<close>
  "route CODE_KEYWORDS input sessionCsvRows csvContext images messages =
     (let text = trim input;
          wantPythonOnly = rx_test PYTHON_ONLY_KEYWORDS text;
          wantCode = (CODE_KEYWORDS text \<and> sessionCsvRows = None);
          capturedCsv = csvContext;
          wantImageGen = rx_test wantImageGen_rx text;
          mentionsImage = rx_test mentionsImage_rx text;
          wantPlot = rx_test wantPlot_rx text;
          hasData = (sessionCsvRows \<noteq> None);
          hasImages = (length images > 0);
          lastWasImageError = rx_test lastWasImageError_rx (lastModelText_of messages);
          isRetryShort = (length text < 80 \<and> rx_test isRetryShort_rx text);
          retryImageContext = (isRetryShort \<and> lastWasImageError);
          forceToolsForImage = (wantImageGen \<or> hasImages \<or> retryImageContext
                                \<or> (mentionsImage \<and> rx_test action_verb_rx text));
          useTools = (forceToolsForImage
                      \<or> ((\<not> wantPythonOnly \<and> (\<not> wantCode \<or> mentionsImage \<or> wantPlot)
                           \<and> (capturedCsv = None \<or> wantImageGen \<or> hasImages))
                          \<and> (hasData \<or> wantPlot)));
          useCodeExecution = (\<not> forceToolsForImage
                              \<and> (wantPythonOnly
                                   \<or> (wantCode \<and> sessionCsvRows \<noteq> None \<and> \<not> mentionsImage \<and> \<not> wantPlot)))
      in \<lparr> r_forceToolsForImage = forceToolsForImage, r_useTools = useTools,
           r_useCodeExecution = useCodeExecution \<rparr>)"

section \<open>Lemmas about the JavaScript prelude\<close>

lemma filter_sub:
  assumes "\<And>x. P x \<Longrightarrow> Q x"
  shows "filter P (filter Q xs) = filter P xs"
  using assms by (induction xs) auto

lemma filter_none:
  assumes "\<And>x. P x \<Longrightarrow> \<not> Q x"
  shows "filter P (filter Q xs) = []"
  using assms by (induction xs) auto

lemma filter_key_sort_key:
  "filter (\<lambda>kv. fst kv = k) (sort_key (\<lambda>kv. digits_val (fst kv)) xs) = filter (\<lambda>kv. fst kv = k) xs"
proof -
  let ?f = "\<lambda>kv :: string \<times> 'a. digits_val (fst kv)"
  let ?K = "\<lambda>kv :: string \<times> 'a. fst kv = k"
  let ?D = "\<lambda>kv :: string \<times> 'a. ?f kv = digits_val k"
  have "filter ?K (sort_key ?f xs) = filter ?K (filter ?D (sort_key ?f xs))"
    by (rule filter_sub[symmetric]) simp
  also have "\<dots> = filter ?K (filter ?D xs)"
    by (simp only: sort_key_stable)
  also have "\<dots> = filter ?K xs"
    by (rule filter_sub) simp
  finally show ?thesis .
qed

lemma filter_key_own_entries:
  "filter (\<lambda>kv. fst kv = k) (own_entries ob) = filter (\<lambda>kv. fst kv = k) ob"
proof (cases "is_array_index k")
  case True
  have a: "filter (\<lambda>kv. fst kv = k) (filter (\<lambda>kv. is_array_index (fst kv)) ob)
      = filter (\<lambda>kv. fst kv = k) ob"
    by (rule filter_sub) (simp add: True)
  have b: "filter (\<lambda>kv. fst kv = k) (filter (\<lambda>kv. \<not> is_array_index (fst kv)) ob) = []"
    by (rule filter_none) (simp add: True)
  show ?thesis
    unfolding own_entries_def filter_append filter_key_sort_key a b by simp
next
  case False
  have a: "filter (\<lambda>kv. fst kv = k) (filter (\<lambda>kv. is_array_index (fst kv)) ob) = []"
    by (rule filter_none) (use False in auto)
  have b: "filter (\<lambda>kv. fst kv = k) (filter (\<lambda>kv. \<not> is_array_index (fst kv)) ob)
      = filter (\<lambda>kv. fst kv = k) ob"
    by (rule filter_sub) (use False in auto)
  show ?thesis
    unfolding own_entries_def filter_append filter_key_sort_key a b by simp
qed

lemma map_of_filter_key:
  "map_of xs k = (case filter (\<lambda>kv. fst kv = k) xs of [] \<Rightarrow> None | kv # _ \<Rightarrow> Some (snd kv))"
  by (induction xs) auto

lemma map_of_own_entries: "map_of (own_entries ob) = map_of ob"
  by (rule ext) (simp add: map_of_filter_key filter_key_own_entries)

lemma obj_get_own_entries: "obj_get (own_entries ob) k = obj_get ob k"
  by (simp add: obj_get_def map_of_own_entries)


lemma set_own_entries: "set (own_entries ob) = set ob"
  by (auto simp: own_entries_def)




section \<open>Enrichment\<close>

text \<open>
  Claim C6. \<^verbatim>\<open>enrichWithEngagement\<close> is idempotent: when the header list already holds
  an \<open>engagement\<close> column the input comes back unchanged, and applying it to its own
  result gives that result once more, for every row list and header list.
\<close>

theorem enrich_idempotent:
  "(''engagement'' \<in> set headers \<longrightarrow> enrichWithEngagement rows headers = (rows, headers)) \<and>
   enrichWithEngagement (fst (enrichWithEngagement rows headers))
                        (snd (enrichWithEngagement rows headers))
     = enrichWithEngagement rows headers"
  by (simp add: enrichWithEngagement_def Let_def)

theorem enrich_idempotent_witness:
  "''engagement'' \<in> set [''likes'', ''views'', ''engagement''] \<and>
   enrichWithEngagement [[(''likes'', JStr ''3''), (''views'', JStr ''4''), (''engagement'', JStr ''x'')]]
       [''likes'', ''views'', ''engagement'']
     = ([[(''likes'', JStr ''3''), (''views'', JStr ''4''), (''engagement'', JStr ''x'')]],
        [''likes'', ''views'', ''engagement''])"
  using enrich_idempotent[of "[''likes'', ''views'', ''engagement'']"
      "[[(''likes'', JStr ''3''), (''views'', JStr ''4''), (''engagement'', JStr ''x'')]]"]
  by simp






subsection \<open>Enrichment on a store\<close>

lemma lookup_append: "a < length h \<Longrightarrow> lookup (h @ cs) a = lookup h a"
  by (simp add: lookup_def nth_append)

lemma row_at_append: "a < length h \<Longrightarrow> row_at (h @ cs) a = row_at h a"
  by (simp add: row_at_def lookup_append)

lemma is_row_append: "is_row h a \<Longrightarrow> is_row (h @ cs) a"
  by (auto simp: is_row_def lookup_def nth_append split: if_splits)

lemma is_row_less: "is_row h a \<Longrightarrow> a < length h"
  by (auto simp: is_row_def lookup_def split: if_splits)

lemma is_row_lookup: "is_row h a \<Longrightarrow> lookup h a = Some (RowObj (row_at h a))"
  by (auto simp: is_row_def row_at_def split: option.splits cell.splits)

lemma map_rows_heap_spec:
  assumes "\<forall>r \<in> set rs. is_row h r"
  shows "map_rows_heap h f v rs =
     Some (h @ map (\<lambda>r. RowObj (enrich_row f v (row_at h r))) rs, [length h ..< length h + length rs])"
  using assms
proof (induction rs arbitrary: h)
  case Nil
  then show ?case by simp
next
  case (Cons r rs)
  let ?c = "RowObj (enrich_row f v (row_at h r))"
  have r: "lookup h r = Some (RowObj (row_at h r))"
    using Cons.prems by (simp add: is_row_lookup)
  have rs: "\<forall>x \<in> set rs. is_row (h @ [?c]) x"
    using Cons.prems by (simp add: is_row_append)
  have same: "map (\<lambda>x. RowObj (enrich_row f v (row_at (h @ [?c]) x))) rs
      = map (\<lambda>x. RowObj (enrich_row f v (row_at h x))) rs"
    using Cons.prems by (simp add: row_at_append is_row_less)
  have u: "[length h ..< length h + length (r # rs)]
      = length h # [length (h @ [?c]) ..< length (h @ [?c]) + length rs]"
    by (subst upt_rec) simp
  have "map_rows_heap h f v (r # rs) =
      Some ((h @ [?c]) @ map (\<lambda>x. RowObj (enrich_row f v (row_at h x))) rs,
            length h # [length (h @ [?c]) ..< length (h @ [?c]) + length rs])"
    unfolding map_rows_heap.simps r by (simp only: alloc_def Cons.IH[OF rs] same option.case cell.case prod.case)
  then show ?case unfolding u by simp
qed


lemma map_of_enrich_row:
  "map_of (enrich_row f v ob) = (map_of ob)(''engagement'' \<mapsto> engagement_of f v ob)"
  by (simp add: enrich_row_def obj_set_def update_conv' map_of_own_entries)

lemma keys_enrich_row:
  "fst ` set (enrich_row f v ob) = insert ''engagement'' (fst ` set ob)"
  by (simp add: enrich_row_def obj_set_def dom_update set_own_entries)

lemma enrich_row_preserves:
  assumes "''engagement'' \<notin> fst ` set ob"
  shows "map_of ob \<subseteq>\<^sub>m map_of (enrich_row f v ob)"
proof -
  have "''engagement'' \<notin> dom (map_of ob)"
    using assms by (simp add: dom_map_of_conv_image_fst)
  then show ?thesis
    unfolding map_le_def map_of_enrich_row by (metis fun_upd_other)
qed

lemma enrich_pure_applies:
  assumes "enrich_applies rs headers"
  shows "enrichWithEngagement (map g rs) headers =
     (map (\<lambda>r. enrich_row (prop_key (favCol_of headers)) (prop_key (viewCol_of headers)) (g r)) rs,
      headers @ [''engagement''])"
  using assms by (simp add: enrich_applies_def enrichWithEngagement_def enrich_row_def Let_def comp_def)

lemma enrich_heap_not_applies:
  assumes "lookup h rowsRef = Some (RowArr rs)" "lookup h headersRef = Some (StrArr headers)"
    and "\<not> enrich_applies rs headers"
  shows "enrich_heap h rowsRef headersRef = Some (h, rowsRef, headersRef)"
  using assms(3) unfolding enrich_heap_def assms(1,2) enrich_applies_def Let_def by auto

lemma enrich_heap_applies:
  assumes "lookup h rowsRef = Some (RowArr rs)" "lookup h headersRef = Some (StrArr headers)"
    and "\<forall>r \<in> set rs. is_row h r"
    and "enrich_applies rs headers"
  shows "enrich_heap h rowsRef headersRef =
     Some (h @ map (\<lambda>r. RowObj (enrich_row (prop_key (favCol_of headers)) (prop_key (viewCol_of headers))
                            (row_at h r))) rs
             @ [RowArr [length h ..< length h + length rs], StrArr (headers @ [''engagement''])],
           length h + length rs, length h + length rs + 1)"
  using assms(4) unfolding enrich_heap_def assms(1,2) enrich_applies_def Let_def
  by (simp add: map_rows_heap_spec[OF assms(3)] alloc_def)


text \<open>
  Claim C10. \<^verbatim>\<open>enrichWithEngagement\<close> never mutates its inputs. On a store in which
  the two arguments are a row array and a header array, the call returns, and every
  cell that existed before (the row array, each row object, the header array) is
  unchanged. When one of the early returns is taken the very same store and the very
  same two addresses come back. When enrichment applies, the returned arrays and every
  returned row are fresh addresses; each new row has the properties of the original
  row with \<open>engagement\<close> set (so every original pair is preserved and exactly that
  key is added, the original row having no such key), the new header array is the old one
  with \<open>engagement\<close> appended, and the contents are those of the function on values.
\<close>

theorem enrich_heap_frame:
  assumes "lookup h rowsRef = Some (RowArr rs)"
    and "lookup h headersRef = Some (StrArr headers)"
    and "\<forall>r \<in> set rs. is_row h r"
  shows "\<exists>h' rows' headers'.
     enrich_heap h rowsRef headersRef = Some (h', rows', headers') \<and>
     take (length h) h' = h \<and>
     (\<not> enrich_applies rs headers \<longrightarrow> h' = h \<and> rows' = rowsRef \<and> headers' = headersRef) \<and>
     (enrich_applies rs headers \<longrightarrow>
        length h \<le> rows' \<and> length h \<le> headers' \<and> rows' \<noteq> headers' \<and>
        lookup h' headers' = Some (StrArr (headers @ [''engagement''])) \<and>
        (\<exists>refs. lookup h' rows' = Some (RowArr refs) \<and> length refs = length rs \<and> distinct refs \<and>
           (\<forall>i < length rs.
               length h \<le> refs ! i \<and> refs ! i \<noteq> rows' \<and> refs ! i \<noteq> headers' \<and>
               is_row h' (refs ! i) \<and>
               map_of (row_at h' (refs ! i)) =
                 (map_of (row_at h (rs ! i)))(''engagement'' \<mapsto>
                    engagement_of (prop_key (favCol_of headers)) (prop_key (viewCol_of headers))
                      (row_at h (rs ! i))) \<and>
               (''engagement'' \<notin> fst ` set (row_at h (rs ! i)) \<longrightarrow>
                  map_of (row_at h (rs ! i)) \<subseteq>\<^sub>m map_of (row_at h' (refs ! i)) \<and>
                  fst ` set (row_at h' (refs ! i)) = insert ''engagement'' (fst ` set (row_at h (rs ! i))))) \<and>
           (map (row_at h') refs, headers @ [''engagement''])
             = enrichWithEngagement (map (row_at h) rs) headers))"
proof (cases "enrich_applies rs headers")
  case False
  then show ?thesis
    using enrich_heap_not_applies[OF assms(1,2) False] by simp
next
  case True
  let ?f = "prop_key (favCol_of headers)" and ?v = "prop_key (viewCol_of headers)"
  let ?cells = "map (\<lambda>r. RowObj (enrich_row ?f ?v (row_at h r))) rs"
  let ?refs = "[length h ..< length h + length rs]"
  let ?h' = "h @ ?cells @ [RowArr ?refs, StrArr (headers @ [''engagement''])]"
  let ?rows' = "length h + length rs" and ?headers' = "length h + length rs + 1"
  have e: "enrich_heap h rowsRef headersRef = Some (?h', ?rows', ?headers')"
    by (rule enrich_heap_applies[OF assms True])
  have at: "lookup ?h' (length h + i) = Some (RowObj (enrich_row ?f ?v (row_at h (rs ! i))))"
    if "i < length rs" for i
    using that by (simp add: lookup_def nth_append)
  have rat: "row_at ?h' (?refs ! i) = enrich_row ?f ?v (row_at h (rs ! i))" if "i < length rs" for i
    using that at[OF that] by (simp add: row_at_def)
  have isr: "is_row ?h' (?refs ! i)" if "i < length rs" for i
    using that at[OF that] by (simp add: is_row_def)
  have hd: "lookup ?h' ?headers' = Some (StrArr (headers @ [''engagement'']))"
    by (simp add: lookup_def nth_append)
  have ra: "lookup ?h' ?rows' = Some (RowArr ?refs)"
    by (simp add: lookup_def nth_append)
  have pure: "(map (row_at ?h') ?refs, headers @ [''engagement''])
             = enrichWithEngagement (map (row_at h) rs) headers"
  proof -
    have "map (row_at ?h') ?refs = map (\<lambda>r. enrich_row ?f ?v (row_at h r)) rs"
      using at by (intro nth_equalityI) (simp_all add: row_at_def del: upt_Suc)
    then show ?thesis by (simp only: enrich_pure_applies[OF True])
  qed
  have rowsprop: "\<forall>i < length rs.
               length h \<le> ?refs ! i \<and> ?refs ! i \<noteq> ?rows' \<and> ?refs ! i \<noteq> ?headers' \<and>
               is_row ?h' (?refs ! i) \<and>
               map_of (row_at ?h' (?refs ! i)) =
                 (map_of (row_at h (rs ! i)))(''engagement'' \<mapsto>
                    engagement_of ?f ?v (row_at h (rs ! i))) \<and>
               (''engagement'' \<notin> fst ` set (row_at h (rs ! i)) \<longrightarrow>
                  map_of (row_at h (rs ! i)) \<subseteq>\<^sub>m map_of (row_at ?h' (?refs ! i)) \<and>
                  fst ` set (row_at ?h' (?refs ! i)) = insert ''engagement'' (fst ` set (row_at h (rs ! i))))"
  proof (intro allI impI)
    fix i assume i: "i < length rs"
    show "length h \<le> ?refs ! i \<and> ?refs ! i \<noteq> ?rows' \<and> ?refs ! i \<noteq> ?headers' \<and>
               is_row ?h' (?refs ! i) \<and>
               map_of (row_at ?h' (?refs ! i)) =
                 (map_of (row_at h (rs ! i)))(''engagement'' \<mapsto>
                    engagement_of ?f ?v (row_at h (rs ! i))) \<and>
               (''engagement'' \<notin> fst ` set (row_at h (rs ! i)) \<longrightarrow>
                  map_of (row_at h (rs ! i)) \<subseteq>\<^sub>m map_of (row_at ?h' (?refs ! i)) \<and>
                  fst ` set (row_at ?h' (?refs ! i)) = insert ''engagement'' (fst ` set (row_at h (rs ! i))))"
      unfolding rat[OF i] using i isr[OF i]
      by (simp add: map_of_enrich_row keys_enrich_row enrich_row_preserves[unfolded map_of_enrich_row]
            del: upt_Suc)
  qed
  have "take (length h) ?h' = h \<and>
        length h \<le> ?rows' \<and> length h \<le> ?headers' \<and> ?rows' \<noteq> ?headers' \<and>
        lookup ?h' ?headers' = Some (StrArr (headers @ [''engagement''])) \<and>
        lookup ?h' ?rows' = Some (RowArr ?refs) \<and> length ?refs = length rs \<and> distinct ?refs"
    using hd ra by simp
  with e True rowsprop pure show ?thesis by blast
qed


theorem enrich_heap_frame_witness:
  "lookup [RowObj [(''likes'', JStr ''3''), (''views'', JStr ''4'')], RowArr [0], StrArr [''likes'', ''views'']] 1
     = Some (RowArr [0]) \<and>
   lookup [RowObj [(''likes'', JStr ''3''), (''views'', JStr ''4'')], RowArr [0], StrArr [''likes'', ''views'']] 2
     = Some (StrArr [''likes'', ''views'']) \<and>
   is_row [RowObj [(''likes'', JStr ''3''), (''views'', JStr ''4'')], RowArr [0], StrArr [''likes'', ''views'']] 0 \<and>
   enrich_applies [0] [''likes'', ''views''] \<and>
   (\<exists>h' rows' headers'.
      enrich_heap [RowObj [(''likes'', JStr ''3''), (''views'', JStr ''4'')], RowArr [0],
                   StrArr [''likes'', ''views'']] 1 2 = Some (h', rows', headers') \<and>
      take 3 h' = [RowObj [(''likes'', JStr ''3''), (''views'', JStr ''4'')], RowArr [0],
                   StrArr [''likes'', ''views'']] \<and>
      3 \<le> rows' \<and> 3 \<le> headers' \<and>
      lookup h' headers' = Some (StrArr [''likes'', ''views'', ''engagement'']))"
proof -
  let ?h = "[RowObj [(''likes'', JStr ''3''), (''views'', JStr ''4'')], RowArr [0],
             StrArr [''likes'', ''views'']]"
  have h1: "lookup ?h 1 = Some (RowArr [0])" by (simp add: lookup_def)
  have h2: "lookup ?h 2 = Some (StrArr [''likes'', ''views''])" by (simp add: lookup_def)
  have h3: "\<forall>r \<in> set [0]. is_row ?h r" by (simp add: is_row_def lookup_def)
  have h4: "enrich_applies [0] [''likes'', ''views'']" by code_simp
  have "\<exists>h' rows' headers'.
      enrich_heap ?h 1 2 = Some (h', rows', headers') \<and> take 3 h' = ?h \<and>
      3 \<le> rows' \<and> 3 \<le> headers' \<and>
      lookup h' headers' = Some (StrArr [''likes'', ''views'', ''engagement''])"
    using enrich_heap_frame[OF h1 h2 h3]
    apply (elim exE conjE)
    apply (simp only: h4 simp_thms)
    apply (elim exE conjE)
    subgoal for h' rows' headers'
      by (intro exI[of _ h'] exI[of _ rows'] exI[of _ headers']) (simp add: numeral_3_eq_3)
    done
  with h1 h2 h3 h4 show ?thesis by simp
qed

section \<open>Parsing delimited text\<close>




























section \<open>Column statistics\<close>

































section \<open>Frequency tables\<close>























section \<open>The tool executor\<close>

lemma resolveCol_cases:
  assumes "resolveCol (r # rs) (Some n) = Some k"
  shows "k = n \<or> (k \<in> set (own_keys r) \<and> norm_key k = norm_key n)"
proof (cases "n = [] \<or> n \<in> set (own_keys r)")
  case True
  then show ?thesis using assms by (auto simp: resolveCol_def Let_def split: if_splits)
next
  case False
  then have e: "js_or (List.find (\<lambda>k. norm_key k = norm_key n) (own_keys r)) (Some n) = Some k"
    using assms by (simp add: resolveCol_def Let_def)
  show ?thesis
  proof (cases "List.find (\<lambda>k. norm_key k = norm_key n) (own_keys r)")
    case None
    then show ?thesis using e by (simp add: js_or_def)
  next
    case (Some k')
    then have "k' \<in> set (own_keys r) \<and> norm_key k' = norm_key n"
      by (auto simp: find_Some_iff)
    then show ?thesis using e Some by (auto simp: js_or_def split: if_splits)
  qed
qed

lemma resolveCol_examples:
  "resolveCol [[(''Favorite Count'', JStr ''1'')]] (Some ''favorite_count'') = Some ''Favorite Count''"
  "resolveCol [[(''Favorite Count'', JStr ''1'')]] (Some ''FAVORITE COUNT'') = Some ''Favorite Count''"
  "resolveCol [[(''Favorite Count'', JStr ''1'')]] (Some ''favs'') = Some ''favs''"
  by code_simp+

text \<open>
  Claim C1, on the code. The claim asks every tool to answer a column name that matches
  no header with an error listing the headers. \<^verbatim>\<open>compute_column_stats\<close>,
  \<^verbatim>\<open>plot_metric_vs_time\<close> and \<^verbatim>\<open>compute_stats_json\<close> do; the two below do not.
  On a dataset whose one header is \<open>a\<close>, the name \<open>nope\<close> resolves to itself,
  \<^verbatim>\<open>get_value_counts\<close> returns an empty table and \<^verbatim>\<open>get_top_tweets\<close> returns
  the rows unsorted, neither with an error.
\<close>

theorem unresolved_column_no_error:
  "availableHeaders_of [[(''a'', JStr ''x'')]] = [''a''] \<and>
   resolveCol [[(''a'', JStr ''x'')]] (Some ''nope'') = Some ''nope'' \<and>
   executeTool js gen ''get_value_counts'' (no_args\<lparr>a_column := Some ''nope''\<rparr>)
       (Some [[(''a'', JStr ''x'')]]) imgs
     = ValueCounts (Some ''nope'') 1 [] \<and>
   executeTool js gen ''get_top_tweets'' (no_args\<lparr>a_sort_column := Some ''nope''\<rparr>)
       (Some [[(''a'', JStr ''x'')]]) imgs
     = TopTweets (Some ''nope'') ''descending (highest first)'' 1 [[(''rank'', JNum (Fin 1))]]"
proof -
  let ?R = "[[(''a'', JStr ''x'')]]"
  have h: "availableHeaders_of ?R = [''a'']" by code_simp
  have r: "resolveCol ?R (Some ''nope'') = Some ''nope''" by code_simp
  have u: "obj_get [(''a'', JStr ''x'')] ''nope'' = JUndefined" by (simp add: obj_get_def)
  have vc: "get_value_counts js (no_args\<lparr>a_column := Some ''nope''\<rparr>) ?R = ValueCounts (Some ''nope'') 1 []"
    by (simp add: get_value_counts_def Let_def no_args_def r prop_key_def value_count_keys_def u
        count_keys_def rank_counts_def own_entries_def js_sort_def js_slice0_def num_or_def fromEntries_def)
  have f: "\<not> rx_test (cats [Bos, Lit ''text'', Eos]) ''a''"
     "\<not> rx_test (ors [Lit ''text'', Lit ''content'', Lit ''tweet'', Lit ''body'']) ''a''"
     "\<not> rx_test (cats [Lit ''favorite'', Opt Dot, Lit ''count'']) ''a''"
     "\<not> rx_test (cats [Lit ''view'', Opt Dot, Lit ''count'']) ''a''"
    by code_simp+
  have tt: "get_top_tweets js (no_args\<lparr>a_sort_column := Some ''nope''\<rparr>) ?R
      = TopTweets (Some ''nope'') ''descending (highest first)'' 1 [[(''rank'', JNum (Fin 1))]]"
    using f
    by (simp add: get_top_tweets_def Let_def no_args_def r h js_or_def prop_key_def js_sort_def
        js_slice0_def num_or_def top_row_def truthy_str_def obj_set_def)
  show ?thesis using h r vc tt by (simp add: executeTool_def)
qed












section \<open>The retry wrapper\<close>

lemma waitMs_le: "waitMs_of err \<le> 60000"
  by (simp add: waitMs_of_def split: option.splits)

lemma retry_from_Inr:
  "run a = Inr v \<Longrightarrow> retry_from run m a = \<lparr> rr_outcome = Inr v, rr_waits = [], rr_attempts = 1 \<rparr>"
  by (subst retry_from.simps) simp

lemma retry_from_stop:
  "run a = Inl e \<Longrightarrow> \<not> (is429 (e_message e) \<and> a < m) \<Longrightarrow>
   retry_from run m a = \<lparr> rr_outcome = Inl e, rr_waits = [], rr_attempts = 1 \<rparr>"
  by (subst retry_from.simps) auto

lemma retry_from_again:
  "run a = Inl e \<Longrightarrow> is429 (e_message e) \<Longrightarrow> a < m \<Longrightarrow>
   retry_from run m a =
     (retry_from run m (a + 1))\<lparr> rr_waits := waitMs_of e # rr_waits (retry_from run m (a + 1)),
                                  rr_attempts := rr_attempts (retry_from run m (a + 1)) + 1 \<rparr>"
  by (subst retry_from.simps) (simp add: Let_def)

lemma retry_from_spec:
  assumes "a \<le> m"
  shows "rr_attempts (retry_from run m a) = length (rr_waits (retry_from run m a)) + 1 \<and>
     a + length (rr_waits (retry_from run m a)) \<le> m \<and>
     rr_outcome (retry_from run m a) = run (a + length (rr_waits (retry_from run m a))) \<and>
     (\<forall>i < length (rr_waits (retry_from run m a)).
         \<exists>e. run (a + i) = Inl e \<and> is429 (e_message e) \<and> rr_waits (retry_from run m a) ! i = waitMs_of e) \<and>
     (\<forall>e. run (a + length (rr_waits (retry_from run m a))) = Inl e \<longrightarrow>
         \<not> is429 (e_message e) \<or> a + length (rr_waits (retry_from run m a)) = m)"
  using assms
proof (induction "m - a" arbitrary: a)
  case 0
  then have am: "a = m" by simp
  show ?case
  proof (cases "run a")
    case (Inl e)
    then show ?thesis using am by (simp add: retry_from_stop)
  next
    case (Inr v)
    then show ?thesis using am by (simp add: retry_from_Inr)
  qed
next
  case (Suc n)
  then have lt: "a < m" by simp
  show ?case
  proof (cases "run a")
    case (Inr v)
    then show ?thesis using lt by (simp add: retry_from_Inr)
  next
    case (Inl e)
    show ?thesis
    proof (cases "is429 (e_message e)")
      case False
      then show ?thesis using Inl lt by (simp add: retry_from_stop)
    next
      case True
      let ?r = "retry_from run m (a + 1)"
      have ih: "rr_attempts ?r = length (rr_waits ?r) + 1 \<and>
         (a + 1) + length (rr_waits ?r) \<le> m \<and>
         rr_outcome ?r = run ((a + 1) + length (rr_waits ?r)) \<and>
         (\<forall>i < length (rr_waits ?r).
            \<exists>e. run ((a + 1) + i) = Inl e \<and> is429 (e_message e) \<and> rr_waits ?r ! i = waitMs_of e) \<and>
         (\<forall>e. run ((a + 1) + length (rr_waits ?r)) = Inl e \<longrightarrow>
            \<not> is429 (e_message e) \<or> (a + 1) + length (rr_waits ?r) = m)"
        using Suc.hyps(1)[of "a + 1"] Suc.hyps(2) lt by simp
      have eq: "retry_from run m a = ?r\<lparr> rr_waits := waitMs_of e # rr_waits ?r, rr_attempts := rr_attempts ?r + 1 \<rparr>"
        using Inl True lt by (rule retry_from_again[of run a e m])
      have w: "\<forall>i < Suc (length (rr_waits ?r)).
            \<exists>e'. run (a + i) = Inl e' \<and> is429 (e_message e') \<and> (waitMs_of e # rr_waits ?r) ! i = waitMs_of e'"
      proof (intro allI impI)
        fix i assume i: "i < Suc (length (rr_waits ?r))"
        show "\<exists>e'. run (a + i) = Inl e' \<and> is429 (e_message e') \<and> (waitMs_of e # rr_waits ?r) ! i = waitMs_of e'"
        proof (cases i)
          case 0
          then show ?thesis using Inl True by simp
        next
          case (Suc j)
          then have "j < length (rr_waits ?r)" using i by simp
          then show ?thesis using ih Suc by simp
        qed
      qed
      show ?thesis
        unfolding eq using ih w by simp
    qed
  qed
qed


text \<open>
  Claim C4, as amended. The wait computed from a failure is at most 60000 ms. When a
  \<open>retry-after\<close> header is present it decides alone: its integer number of seconds
  times 1000, capped at 60000, or the default 15000 when it does not start with an
  integer. Only when no header is present (or it is empty) is the message searched for a
  hint, and then the wait is the hinted seconds plus a margin of 2000 ms, capped at
  60000; with neither it is 15000. The wrapper makes at most \<open>maxRetries + 1\<close> calls,
  sleeps once between two calls, each sleep being the wait of the rate-limit failure
  before it, and its outcome is the outcome of the last call: the value, or the error
  unchanged, which is then not a rate-limit failure or the failure of the final attempt.
\<close>

theorem retry_wrapper_spec:
  "waitMs_of err \<le> 60000 \<and>
   (truthy_str (retryAfterHeader_of err) \<and> parseInt10 (prop_key (retryAfterHeader_of err)) = Some sec \<longrightarrow>
      waitMs_of err = min (sec * 1000) 60000) \<and>
   (truthy_str (retryAfterHeader_of err) \<and> parseInt10 (prop_key (retryAfterHeader_of err)) = None \<longrightarrow>
      waitMs_of err = 15000) \<and>
   (\<not> truthy_str (retryAfterHeader_of err) \<and> hint_of (e_message err) = Some ds \<longrightarrow>
      waitMs_of err = min (digits_val ds * 1000 + 2000) 60000) \<and>
   (\<not> truthy_str (retryAfterHeader_of err) \<and> hint_of (e_message err) = None \<longrightarrow>
      waitMs_of err = 15000) \<and>
   rr_attempts (replicateRunWithRetry run maxRetries) \<le> maxRetries + 1 \<and>
   rr_attempts (replicateRunWithRetry run maxRetries)
     = length (rr_waits (replicateRunWithRetry run maxRetries)) + 1 \<and>
   rr_outcome (replicateRunWithRetry run maxRetries)
     = run (rr_attempts (replicateRunWithRetry run maxRetries) - 1) \<and>
   (\<forall>i < length (rr_waits (replicateRunWithRetry run maxRetries)).
      \<exists>e. run i = Inl e \<and> is429 (e_message e)
        \<and> rr_waits (replicateRunWithRetry run maxRetries) ! i = waitMs_of e) \<and>
   (\<forall>e. run (rr_attempts (replicateRunWithRetry run maxRetries) - 1) = Inl e \<longrightarrow>
      rr_outcome (replicateRunWithRetry run maxRetries) = Inl e \<and>
      (\<not> is429 (e_message e) \<or> rr_attempts (replicateRunWithRetry run maxRetries) - 1 = maxRetries))"
proof -
  have s: "rr_attempts (retry_from run maxRetries 0) = length (rr_waits (retry_from run maxRetries 0)) + 1 \<and>
     0 + length (rr_waits (retry_from run maxRetries 0)) \<le> maxRetries \<and>
     rr_outcome (retry_from run maxRetries 0) = run (0 + length (rr_waits (retry_from run maxRetries 0))) \<and>
     (\<forall>i < length (rr_waits (retry_from run maxRetries 0)).
         \<exists>e. run (0 + i) = Inl e \<and> is429 (e_message e) \<and> rr_waits (retry_from run maxRetries 0) ! i = waitMs_of e) \<and>
     (\<forall>e. run (0 + length (rr_waits (retry_from run maxRetries 0))) = Inl e \<longrightarrow>
         \<not> is429 (e_message e) \<or> 0 + length (rr_waits (retry_from run maxRetries 0)) = maxRetries)"
    by (rule retry_from_spec) simp
  have w: "(truthy_str (retryAfterHeader_of err) \<and> parseInt10 (prop_key (retryAfterHeader_of err)) = Some sec \<longrightarrow>
      waitMs_of err = min (sec * 1000) 60000) \<and>
   (truthy_str (retryAfterHeader_of err) \<and> parseInt10 (prop_key (retryAfterHeader_of err)) = None \<longrightarrow>
      waitMs_of err = 15000) \<and>
   (\<not> truthy_str (retryAfterHeader_of err) \<and> hint_of (e_message err) = Some ds \<longrightarrow>
      waitMs_of err = min (digits_val ds * 1000 + 2000) 60000) \<and>
   (\<not> truthy_str (retryAfterHeader_of err) \<and> hint_of (e_message err) = None \<longrightarrow>
      waitMs_of err = 15000)"
    by (simp add: waitMs_of_def)
  show ?thesis
    unfolding replicateRunWithRetry_def using s w waitMs_le[of err] by simp
qed

theorem retry_wrapper_spec_witness:
  "truthy_str (retryAfterHeader_of \<lparr> e_message = ''Request failed with status 429'',
       e_headers = Some (\<lambda>k. if k = ''retry-after'' then Some ''2'' else None) \<rparr>) \<and>
   parseInt10 (prop_key (retryAfterHeader_of \<lparr> e_message = ''Request failed with status 429'',
       e_headers = Some (\<lambda>k. if k = ''retry-after'' then Some ''2'' else None) \<rparr>)) = Some 2 \<and>
   waitMs_of \<lparr> e_message = ''Request failed with status 429'',
       e_headers = Some (\<lambda>k. if k = ''retry-after'' then Some ''2'' else None) \<rparr> = 2000 \<and>
   rr_attempts (replicateRunWithRetry
       (\<lambda>i. if i = 0 then Inl \<lparr> e_message = ''Request failed with status 429'',
                 e_headers = Some (\<lambda>k. if k = ''retry-after'' then Some ''2'' else None) \<rparr>
             else Inr ''image'') default_maxRetries) \<le> default_maxRetries + 1"
proof -
  let ?E = "\<lparr> e_message = ''Request failed with status 429'',
       e_headers = Some (\<lambda>k. if k = ''retry-after'' then Some ''2'' else None) \<rparr>"
  let ?run = "\<lambda>i::nat. if i = 0 then Inl ?E else (Inr ''image'' :: run_error + string)"
  have h1: "truthy_str (retryAfterHeader_of ?E)"
    by (simp add: retryAfterHeader_of_def truthy_str_def)
  have h2: "parseInt10 (prop_key (retryAfterHeader_of ?E)) = Some 2"
    by (simp add: retryAfterHeader_of_def prop_key_def parseInt10_def is_ws_def is_digit_def
        digits_val_def digit_val_def)
  from retry_wrapper_spec[of ?E 2 "[]" ?run default_maxRetries] h1 h2
  have "waitMs_of ?E = min (2 * 1000) 60000"
    and "rr_attempts (replicateRunWithRetry ?run default_maxRetries) \<le> default_maxRetries + 1"
    by blast+
  then show ?thesis using h1 h2 by simp
qed

text \<open>
  The claim as first stated falls back to the hint whenever no retry-after duration is
  supplied. A \<open>retry-after\<close> header holding a date is no duration, the message hints
  at five seconds, and the wait is the default 15000 ms.
\<close>

theorem retry_after_date_counterexample:
  "retryAfterHeader_of \<lparr> e_message = ''429: rate limit resets in 5s'',
       e_headers = Some (\<lambda>k. if k = ''retry-after'' then Some ''Wed, 21 Oct 2026 07:28:00 GMT'' else None) \<rparr>
     = Some ''Wed, 21 Oct 2026 07:28:00 GMT'' \<and>
   parseInt10 ''Wed, 21 Oct 2026 07:28:00 GMT'' = None \<and>
   hint_of ''429: rate limit resets in 5s'' = Some ''5'' \<and>
   waitMs_of \<lparr> e_message = ''429: rate limit resets in 5s'',
       e_headers = Some (\<lambda>k. if k = ''retry-after'' then Some ''Wed, 21 Oct 2026 07:28:00 GMT'' else None) \<rparr>
     = 15000"
  by code_simp

section \<open>Routing a turn\<close>

text \<open>
  Claim C2. For every text, dataset state, attachment state, image list and history, and
  whatever \<^verbatim>\<open>CODE_KEYWORDS\<close> matches, the routing never sets \<open>useTools\<close> and
  \<open>useCodeExecution\<close> together, and when \<open>forceToolsForImage\<close> holds it sets
  \<open>useTools\<close> and leaves \<open>useCodeExecution\<close> unset.
\<close>

theorem route_exclusive:
  "\<not> (r_useTools (route CODE_KEYWORDS input sessionCsvRows csvContext images messages)
       \<and> r_useCodeExecution (route CODE_KEYWORDS input sessionCsvRows csvContext images messages)) \<and>
   (r_forceToolsForImage (route CODE_KEYWORDS input sessionCsvRows csvContext images messages) \<longrightarrow>
      r_useTools (route CODE_KEYWORDS input sessionCsvRows csvContext images messages) \<and>
      \<not> r_useCodeExecution (route CODE_KEYWORDS input sessionCsvRows csvContext images messages))"
  unfolding route_def Let_def routing.select_convs by blast


theorem route_exclusive_witness:
  "r_forceToolsForImage (route (\<lambda>t. False) ''make this into a renaissance painting'' None None
       [\<lparr> img_data = Some ''x'', img_mimeType = None \<rparr>] []) \<and>
   r_useTools (route (\<lambda>t. False) ''make this into a renaissance painting'' None None
       [\<lparr> img_data = Some ''x'', img_mimeType = None \<rparr>] []) \<and>
   \<not> r_useCodeExecution (route (\<lambda>t. False) ''make this into a renaissance painting'' None None
       [\<lparr> img_data = Some ''x'', img_mimeType = None \<rparr>] [])"
proof -
  have f: "r_forceToolsForImage (route (\<lambda>t. False) ''make this into a renaissance painting'' None None
       [\<lparr> img_data = Some ''x'', img_mimeType = None \<rparr>] [])"
  proof -
    have "length [\<lparr> img_data = Some ''x'', img_mimeType = None \<rparr>] > 0" by simp
    then show ?thesis unfolding route_def Let_def routing.select_convs by blast
  qed
  from route_exclusive[of "\<lambda>t. False" "''make this into a renaissance painting''" None None
       "[\<lparr> img_data = Some ''x'', img_mimeType = None \<rparr>]" "[]"] f
  show ?thesis by blast
qed

end
